theory Spec2Isabelle
  imports Complex_Main
begin

section \<open>Finite-source seismogram route: data model\<close>

text \<open>
  The development embeds \<^verbatim>\<open>instaseis/server/routes/finite_source.py\<close>.
  Absolute times (\<^verbatim>\<open>obspy.UTCDateTime\<close>) are seconds since 1970-01-01. A Python
  \<^verbatim>\<open>float\<close> is the real number it stands for; sums, differences and products are
  exact. Where a rounded result decides between branches the rounding is in the model:
  the two float divisions (lines 94 and 205) go through the division of the runtime, a
  parameter, and two \<^verbatim>\<open>UTCDateTime\<close> values are compared after rounding to
  microseconds.
\<close>

datatype error =
    HTTPError nat string
  | ZeroDivisionError
  | OverflowError
  | ValueError
  | AssertionError

text \<open>
  The result of a float operation, and the float division \<^verbatim>\<open>x / y\<close> of the runtime
  for a divisor that is not zero: the double nearest to the quotient, an infinity, or not
  a number.
\<close>

datatype pyfloat =
    Finite real
  | Infinite
  | NotANumber

type_synonym float_div = "real \<Rightarrow> real \<Rightarrow> pyfloat"

text \<open>
  A time setting as produced by \<^verbatim>\<open>_validtimesetting\<close>: an absolute time, a float
  offset in seconds, or a phase name with an offset (an \<^verbatim>\<open>AttribDict\<close>).
\<close>

datatype timesetting =
    UTCDateTime real
  | Float real
  | AttribDict string real

record args =
  components :: string
  units :: string
  dt :: "real option"
  kernelwidth :: int
  label :: "string option"
  origintime :: "real option"
  starttime :: "timesetting option"
  endtime :: "timesetting option"
  format :: string

text \<open>The fields of \<^verbatim>\<open>db.info\<close> that the handler reads.\<close>

record db_info =
  info_period :: real
  info_dt :: real
  info_npts :: int
  info_length :: real

record pointsource =
  sliprate :: "real list"
  ps_time_shift :: real
  ps_position :: "real \<times> real \<times> real"

text \<open>
  Modelled from the spec: the class \<^verbatim>\<open>FiniteSource\<close> is imported by the handler
  and not defined in its file. The record holds what the handler reads or assigns: the
  point sources, the \<^verbatim>\<open>additional_time_shift\<close> assigned during preparation, the
  \<^verbatim>\<open>origin_time\<close> assigned by every extraction, and the hypocentre. The model as a
  whole owns no time shift of its own: \<^verbatim>\<open>finite_source.time_shift\<close> is read off the
  time shifts of the point sources, by a rule of the class that the record carries as
  \<open>read_time_shift\<close>.
\<close>

record finite_source =
  pointsources :: "pointsource list"
  read_time_shift :: "real list \<Rightarrow> real"
  additional_time_shift :: real
  origin_time :: "real option"
  hypocenter :: "(real \<times> real \<times> real) option"

definition time_shift :: "finite_source \<Rightarrow> real" where
  "time_shift fs = read_time_shift fs (map ps_time_shift (pointsources fs))"

text \<open>
  The methods of \<^verbatim>\<open>FiniteSource\<close> that preparation calls are taken as parameters:
  the parser (\<open>None\<close> when it raises), the low-pass filter and the resampler applied to
  one slip-rate series, and the search for the hypocentre among the point sources.
\<close>

record source_lib =
  from_usgs_param_file :: "string \<Rightarrow> nat \<Rightarrow> real \<Rightarrow> real \<Rightarrow> finite_source option"
  lp_series :: "real \<Rightarrow> bool \<Rightarrow> real list \<Rightarrow> real list"
  resample_series :: "real \<Rightarrow> int \<Rightarrow> real list \<Rightarrow> real list"
  locate_hypocenter :: "pointsource list \<Rightarrow> real \<times> real \<times> real"

section \<open>Preparation of the finite source\<close>

definition parse_msg :: string where
  "parse_msg = ''Could not parse the body contents. Incorrect USGS param file?''"

text \<open>
  Modelled from the spec: \<^verbatim>\<open>FiniteSource.lp_sliprate\<close>,
  \<^verbatim>\<open>FiniteSource.resample_sliprate\<close> and \<^verbatim>\<open>FiniteSource.find_hypocenter\<close> are
  not part of the handler's file. They filter every slip-rate series, resample every
  slip-rate series, and attach the hypocentre; nothing else of the model changes.
\<close>

definition lp_sliprate :: "source_lib \<Rightarrow> real \<Rightarrow> bool \<Rightarrow> finite_source \<Rightarrow> finite_source" where
  "lp_sliprate lib freq zerophase fs =
     fs\<lparr>pointsources :=
          map (\<lambda>ps. ps\<lparr>sliprate := lp_series lib freq zerophase (sliprate ps)\<rparr>) (pointsources fs)\<rparr>"

definition resample_sliprate :: "source_lib \<Rightarrow> real \<Rightarrow> int \<Rightarrow> finite_source \<Rightarrow> finite_source" where
  "resample_sliprate lib d nsamp fs =
     fs\<lparr>pointsources :=
          map (\<lambda>ps. ps\<lparr>sliprate := resample_series lib d nsamp (sliprate ps)\<rparr>) (pointsources fs)\<rparr>"

definition find_hypocenter :: "source_lib \<Rightarrow> finite_source \<Rightarrow> finite_source" where
  "find_hypocenter lib fs = fs\<lparr>hypocenter := Some (locate_hypocenter lib (pointsources fs))\<rparr>"

text \<open>
  Line 94: \<^verbatim>\<open>int(math.ceil((2 * dominant_period / db_info.dt))) + 1\<close>. The float
  division raises when the divisor is zero; \<^verbatim>\<open>math.ceil\<close> raises
  \<^verbatim>\<open>OverflowError\<close> on an infinity and \<^verbatim>\<open>ValueError\<close> on a value that is not a
  number.
\<close>

definition padding_samples :: "float_div \<Rightarrow> db_info \<Rightarrow> error + int" where
  "padding_samples fd info =
     (if info_dt info = 0 then Inl ZeroDivisionError
      else
        case fd (2 * info_period info) (info_dt info) of
          Finite q \<Rightarrow> Inr (\<lceil>q\<rceil> + 1)
        | Infinite \<Rightarrow> Inl OverflowError
        | NotANumber \<Rightarrow> Inl ValueError)"

text \<open>The body of the loop of lines 97 to 99, for one point source.\<close>

definition pad_pointsource :: "nat \<Rightarrow> real \<Rightarrow> pointsource \<Rightarrow> pointsource" where
  "pad_pointsource samples shift source =
     source\<lparr>sliprate := replicate samples 0 @ sliprate source @ replicate samples 0,
            ps_time_shift := ps_time_shift source + shift\<rparr>"

text \<open>
  Lines 94 to 101: the padding and the shift bookkeeping. \<^verbatim>\<open>np.zeros\<close> raises
  \<^verbatim>\<open>ValueError\<close> on a negative length.
\<close>

definition pad_finite_source ::
  "float_div \<Rightarrow> db_info \<Rightarrow> finite_source \<Rightarrow> error + (int \<times> finite_source)" where
  "pad_finite_source fd info fs =
     (case padding_samples fd info of
        Inl e \<Rightarrow> Inl e
      | Inr samples \<Rightarrow>
          if samples < 0 then Inl ValueError
          else
            let shift = of_int samples * info_dt info;
                fs1 = fs\<lparr>pointsources :=
                          map (pad_pointsource (nat samples) shift) (pointsources fs)\<rparr>
            in Inr (samples, fs1\<lparr>additional_time_shift := shift\<rparr>))"

text \<open>
  \<^verbatim>\<open>_parse_and_resample_finite_source\<close>, lines 72 to 116. The cut-off frequency
  \<^verbatim>\<open>1.0 / dominant_period\<close> raises for a zero period. The result is the source
  or the \<^verbatim>\<open>HTTPError\<close> that the worker hands to its callback, or another exception,
  which ends the worker before it calls back.
\<close>

definition parse_and_resample_finite_source ::
  "float_div \<Rightarrow> source_lib \<Rightarrow> string \<Rightarrow> db_info \<Rightarrow> error + finite_source" where
  "parse_and_resample_finite_source fd lib body info =
     (case from_usgs_param_file lib body 10000 (1 / 10) 1 of
        None \<Rightarrow> Inl (HTTPError 400 parse_msg)
      | Some fs \<Rightarrow>
          (case pad_finite_source fd info fs of
             Inl e \<Rightarrow> Inl e
           | Inr (samples, fs2) \<Rightarrow>
               if info_period info = 0 then Inl ZeroDivisionError
               else
                 let fs3 = lp_sliprate lib (1 / info_period info) True fs2;
                     fs4 = resample_sliprate lib (info_dt info)
                             (info_npts info + 2 * samples) fs3
                 in Inr (find_hypocenter lib fs4)))"

section \<open>Resolution of the time settings\<close>

text \<open>
  \<^verbatim>\<open>obspy.UTCDateTime(year, month, day)\<close> at midnight, as seconds since 1970-01-01
  in the proleptic Gregorian calendar.
\<close>

definition days_from_civil :: "int \<Rightarrow> int \<Rightarrow> int \<Rightarrow> int" where
  "days_from_civil y m d =
     (let y' = (if m \<le> 2 then y - 1 else y);
          era = y' div 400;
          yoe = y' - era * 400;
          doy = (153 * (if m > 2 then m - 3 else m + 9) + 2) div 5 + d - 1;
          doe = yoe * 365 + yoe div 4 - yoe div 100 + doy
      in era * 146097 + doe - 719468)"

definition utc_date :: "int \<Rightarrow> int \<Rightarrow> int \<Rightarrow> real" where
  "utc_date y m d = of_int (days_from_civil y m d * 86400)"

definition default_origin_time :: real where
  "default_origin_time = utc_date 1900 1 1"

text \<open>
  Python's \<^verbatim>\<open>round(x, 6)\<close> of a finite double: the multiple of \<open>10\<^sup>-\<^sup>6\<close> nearest to
  the number the double stands for, a tie going to the even multiple.
\<close>

definition py_round6 :: "real \<Rightarrow> real" where
  "py_round6 x =
     (let s = x * 1000000;
          f = \<lfloor>s\<rfloor>;
          r = s - of_int f
      in of_int (if r < 1 / 2 then f
                 else if 1 / 2 < r then f + 1
                 else if even f then f else f + 1) / 1000000)"

text \<open>
  \<^verbatim>\<open>obspy.UTCDateTime\<close> compares two times after rounding each to its precision of
  six digits, that is to whole microseconds, a tie going to the even one.
\<close>

definition microseconds :: "real \<Rightarrow> int" where
  "microseconds t =
     (let s = t * 1000000;
          f = \<lfloor>s\<rfloor>;
          r = s - of_int f
      in if r < 1 / 2 then f
         else if 1 / 2 < r then f + 1
         else if even f then f else f + 1)"

definition utc_lt :: "real \<Rightarrow> real \<Rightarrow> bool" where
  "utc_lt t u = (microseconds t < microseconds u)"

definition utc_le :: "real \<Rightarrow> real \<Rightarrow> bool" where
  "utc_le t u = (microseconds t \<le> microseconds u)"

definition utc_ge :: "real \<Rightarrow> real \<Rightarrow> bool" where
  "utc_ge t u = (microseconds t \<ge> microseconds u)"

definition starttime_msg :: string where
  "starttime_msg = ''The `starttime` must be before the seismogram ends.''"

definition one_hour_msg :: string where
  "one_hour_msg =
     ''The seismogram can start at the maximum one hour before the origin time.''"

definition endtime_msg :: string where
  "endtime_msg = ''The end time of the seismograms lies outside the allowed range.''"

text \<open>
  Lines 168 to 190: the defaults and the float offsets. The arguments are updated in
  place, so the updated record is returned also when the assertion fails.
\<close>

definition resolve_float_settings :: "args \<Rightarrow> args \<times> error option" where
  "resolve_float_settings a0 =
     (let ot = (case origintime a0 of None \<Rightarrow> default_origin_time | Some t \<Rightarrow> t);
          a1 = a0\<lparr>origintime := Some ot\<rparr>;
          a2 = (case starttime a1 of
                  None \<Rightarrow> a1\<lparr>starttime := Some (UTCDateTime ot)\<rparr>
                | Some _ \<Rightarrow> a1);
          a3 = (case starttime a2 of
                  Some (Float off) \<Rightarrow> a2\<lparr>starttime := Some (UTCDateTime (ot + off))\<rparr>
                | _ \<Rightarrow> a2)
      in case endtime a3 of
           Some (Float off) \<Rightarrow>
             (case starttime a3 of
                Some (UTCDateTime s) \<Rightarrow> (a3\<lparr>endtime := Some (UTCDateTime (s + off))\<rparr>, None)
              | Some (AttribDict ph po) \<Rightarrow> (a3, None)
              | _ \<Rightarrow> (a3, Some AssertionError))
         | _ \<Rightarrow> (a3, None))"

text \<open>
  Line 205: \<^verbatim>\<open>args.dt is not None and round(args.dt / db.info.dt, 6) != 0\<close>. The
  division is evaluated only when \<^verbatim>\<open>dt\<close> is given, and raises for a zero divisor.
  An infinity and a value that is not a number round to themselves and differ from 0.
\<close>

definition resampling_margin_applies :: "float_div \<Rightarrow> db_info \<Rightarrow> args \<Rightarrow> error + bool" where
  "resampling_margin_applies fd info a =
     (case dt a of
        None \<Rightarrow> Inr False
      | Some d \<Rightarrow>
          if info_dt info = 0 then Inl ZeroDivisionError
          else
            case fd d (info_dt info) of
              Finite q \<Rightarrow> Inr (py_round6 q \<noteq> 0)
            | Infinite \<Rightarrow> Inr True
            | NotANumber \<Rightarrow> Inr True)"

text \<open>
  Lines 197 to 207: the time of the first sample, the earliest start and the latest
  end. \<^verbatim>\<open>args.origintime\<close> has been set by the time these lines run.
\<close>

definition time_window ::
  "float_div \<Rightarrow> db_info \<Rightarrow> args \<Rightarrow> finite_source \<Rightarrow> real \<Rightarrow> error + (real \<times> real \<times> real)" where
  "time_window fd info a fs ot =
     (let time_of_first_sample = ot - time_shift fs;
          earliest_starttime = time_of_first_sample + additional_time_shift fs;
          latest_endtime = time_of_first_sample + info_length info
      in case resampling_margin_applies fd info a of
           Inl e \<Rightarrow> Inl e
         | Inr True \<Rightarrow>
             Inr (time_of_first_sample, earliest_starttime,
                  latest_endtime - of_int (kernelwidth a) * info_dt info)
         | Inr False \<Rightarrow> Inr (time_of_first_sample, earliest_starttime, latest_endtime))"

text \<open>Lines 214 to 225: the checks of an absolute start time.\<close>

definition check_starttime :: "timesetting option \<Rightarrow> real \<Rightarrow> real \<Rightarrow> error option" where
  "check_starttime st earliest_starttime latest_endtime =
     (case st of
        Some (UTCDateTime s) \<Rightarrow>
          if utc_ge s latest_endtime then Some (HTTPError 400 starttime_msg)
          else if utc_lt s (earliest_starttime - 3600) then Some (HTTPError 400 one_hour_msg)
          else None
      | _ \<Rightarrow> None)"

text \<open>Lines 227 to 232: the check of an absolute end time.\<close>

definition check_endtime :: "timesetting option \<Rightarrow> real \<Rightarrow> real \<Rightarrow> error option" where
  "check_endtime et earliest_starttime latest_endtime =
     (case et of
        Some (UTCDateTime e) \<Rightarrow>
          if \<not> (utc_le earliest_starttime e \<and> utc_le e latest_endtime)
          then Some (HTTPError 400 endtime_msg)
          else None
      | _ \<Rightarrow> None)"

text \<open>
  \<^verbatim>\<open>FiniteSourceSeismogramsHandler.parse_time_settings\<close>, lines 164 to 234. The
  result pairs the arguments as the call leaves them with either the raised error or the
  returned triple \<^verbatim>\<open>(time_of_first_sample, earliest_starttime, latest_endtime)\<close>.
\<close>

definition parse_time_settings ::
  "float_div \<Rightarrow> db_info \<Rightarrow> args \<Rightarrow> finite_source
     \<Rightarrow> args \<times> (error + (real \<times> real \<times> real))" where
  "parse_time_settings fd info a0 fs =
     (case resolve_float_settings a0 of
        (a3, Some e) \<Rightarrow> (a3, Inl e)
      | (a3, None) \<Rightarrow>
          (case time_window fd info a3 fs
                  (case origintime a3 of None \<Rightarrow> default_origin_time | Some t \<Rightarrow> t) of
             Inl e \<Rightarrow> (a3, Inl e)
           | Inr (time_of_first_sample, earliest_starttime, latest_endtime) \<Rightarrow>
               let a4 = (case endtime a3 of
                           None \<Rightarrow> a3\<lparr>endtime := Some (UTCDateTime latest_endtime)\<rparr>
                         | Some _ \<Rightarrow> a3)
               in (case check_starttime (starttime a4) earliest_starttime latest_endtime of
                     Some e \<Rightarrow> (a4, Inl e)
                   | None \<Rightarrow>
                       (case check_endtime (endtime a4) earliest_starttime latest_endtime of
                          Some e \<Rightarrow> (a4, Inl e)
                        | None \<Rightarrow>
                            (a4, Inr (time_of_first_sample, earliest_starttime,
                                      latest_endtime))))))"

section \<open>Extraction for one receiver\<close>

record receiver =
  network :: string
  station :: string
  latitude :: real
  longitude :: real

record trace =
  tr_starttime :: real
  tr_data :: "real list"

text \<open>
  What a worker hands back through its callback: an exception, a list of named SAC
  files, or anything else, which the handler writes out as MiniSEED bytes.
\<close>

datatype response =
    RespException error
  | RespList "(string \<times> string) list"
  | RespBytes string

text \<open>
  The collaborators outside the handler's file, as parameters: the database query
  (\<open>None\<close> when it raises), the writer of the waveforms, and the resolution of
  phase-relative times for one receiver (\<open>None\<close> when there is no window). They read the
  finite source and do not change it.
\<close>

record services =
  get_seismograms_finite_source ::
    "finite_source \<Rightarrow> receiver \<Rightarrow> string \<Rightarrow> string \<Rightarrow> real option \<Rightarrow> int \<Rightarrow> trace list option"
  validate_and_write_waveforms ::
    "trace list \<Rightarrow> real \<Rightarrow> real \<Rightarrow> finite_source \<Rightarrow> receiver \<Rightarrow> string option \<Rightarrow> string
       \<Rightarrow> response"
  get_phase_relative_times ::
    "args \<Rightarrow> finite_source \<Rightarrow> receiver \<Rightarrow> real \<Rightarrow> real \<Rightarrow> (real \<times> real) option"

definition extract_msg :: string where
  "extract_msg =
     ''Could not extract seismogram. Make sure, the components are valid, and the depth settings are correct.''"

text \<open>
  \<^verbatim>\<open>_get_finite_source\<close>, lines 26 to 68. The finite source is shared with the
  caller, so the model returns it together with the response.
\<close>

definition get_finite_source ::
  "services \<Rightarrow> finite_source \<Rightarrow> receiver \<Rightarrow> string \<Rightarrow> string \<Rightarrow> real option \<Rightarrow> int
     \<Rightarrow> real \<Rightarrow> real \<Rightarrow> real \<Rightarrow> string \<Rightarrow> string option \<Rightarrow> finite_source \<times> response" where
  "get_finite_source sv fs rc comps un d kw st et time_of_first_sample fmt lbl =
     (case get_seismograms_finite_source sv fs rc comps un d kw of
        None \<Rightarrow> (fs, RespException (HTTPError 400 extract_msg))
      | Some stream \<Rightarrow>
          let stream' = map (\<lambda>tr. tr\<lparr>tr_starttime := time_of_first_sample\<rparr>) stream;
              fs' = fs\<lparr>origin_time := Some (time_of_first_sample + additional_time_shift fs)\<rparr>
          in (fs', validate_and_write_waveforms sv stream' st et fs' rc lbl fmt))"

section \<open>The streaming loop\<close>

text \<open>
  What reaches the client: MiniSEED bytes, an entry of the zip archive with its file
  name, or the archive's trailer.
\<close>

datatype chunk =
    Payload string
  | ZipEntry string string
  | ZipTrailer

text \<open>
  The state of one request: the chunks passed to \<^verbatim>\<open>self.write\<close>, how many of them
  the last \<^verbatim>\<open>self.flush\<close> has sent, whether \<^verbatim>\<open>self.finish\<close> was called, the bytes
  waiting in the archive's queue, the success counter, the shared finite source, and the
  receivers for which an extraction was dispatched.
\<close>

record handler =
  written :: "chunk list"
  flushed :: nat
  finished :: bool
  zip_buf :: "chunk list"
  count :: nat
  source :: finite_source
  dispatched :: "receiver list"

text \<open>
  One pass of the loop meets one receiver; \<open>closed_before\<close> and \<open>closed_after\<close> are
  the values of \<^verbatim>\<open>self.connection_closed\<close> at the checks of lines 283 and 312.
\<close>

record visit =
  visited :: receiver
  closed_before :: bool
  closed_after :: bool

text \<open>
  How control leaves a piece of the loop: it goes on, the handler returns, or an
  exception is raised.
\<close>

datatype loop_exit =
    Continue
  | Returned
  | Raise error

text \<open>
  How \<^verbatim>\<open>post\<close> ends: the response is completed, the handler returns because the
  connection is closed, an exception is raised, or the coroutine is never resumed
  because the preparation worker ended without calling back.
\<close>

datatype outcome =
    Completed
  | ConnectionClosed
  | Raised error
  | NeverResumes

definition init_handler :: "finite_source \<Rightarrow> handler" where
  "init_handler fs =
     \<lparr>written = [], flushed = 0, finished = False, zip_buf = [], count = 0,
      source = fs, dispatched = []\<rparr>"

definition flush :: "handler \<Rightarrow> handler" where
  "flush h = h\<lparr>flushed := length (written h)\<rparr>"

definition finish :: "handler \<Rightarrow> handler" where
  "finish h = (flush h)\<lparr>finished := True\<rparr>"

definition write_data :: "chunk \<Rightarrow> handler \<Rightarrow> handler" where
  "write_data c h = h\<lparr>written := written h @ [c]\<rparr>"

text \<open>\<^verbatim>\<open>zip_file.writestr(filename, content)\<close> for every item of the response.\<close>

definition writestr_all :: "(string \<times> string) list \<Rightarrow> handler \<Rightarrow> handler" where
  "writestr_all items h =
     h\<lparr>zip_buf := zip_buf h @ map (\<lambda>(filename, content). ZipEntry filename content) items\<rparr>"

text \<open>\<^verbatim>\<open>for data in buf: self.write(data)\<close> empties the queue into the response.\<close>

definition drain :: "handler \<Rightarrow> handler" where
  "drain h = h\<lparr>written := written h @ zip_buf h, zip_buf := []\<rparr>"

text \<open>The body of the loop of lines 276 to 334, for one receiver.\<close>

definition visit_step ::
  "services \<Rightarrow> args \<Rightarrow> real \<Rightarrow> real \<Rightarrow> real \<Rightarrow> handler \<Rightarrow> visit \<Rightarrow> handler \<times> loop_exit" where
  "visit_step sv a tofs min_starttime max_endtime h v =
     (if closed_before v then (finish (flush h), Returned)
      else
        case get_phase_relative_times sv a (source h) (visited v) min_starttime max_endtime of
          None \<Rightarrow> (h, Continue)
        | Some (st, et) \<Rightarrow>
            (case get_finite_source sv (source h) (visited v) (components a) (units a) (dt a)
                    (kernelwidth a) st et tofs (format a) (label a) of
               (fs', resp) \<Rightarrow>
                 let h1 = h\<lparr>source := fs', dispatched := dispatched h @ [visited v]\<rparr>
                 in if closed_after v then (finish (flush h1), Returned)
                    else
                      (case resp of
                         RespException e \<Rightarrow> (h1, Raise e)
                       | RespList items \<Rightarrow>
                           if format a \<noteq> ''saczip'' then (h1, Raise AssertionError)
                           else
                             let h2 = flush (drain (writestr_all items h1))
                             in (h2\<lparr>count := count h2 + 1\<rparr>, Continue)
                       | RespBytes b \<Rightarrow>
                           let h2 = flush (write_data (Payload b) h1)
                           in (h2\<lparr>count := count h2 + 1\<rparr>, Continue))))"

text \<open>The loop over the receivers, in their order.\<close>

fun receiver_loop ::
  "services \<Rightarrow> args \<Rightarrow> real \<Rightarrow> real \<Rightarrow> real \<Rightarrow> handler \<Rightarrow> visit list \<Rightarrow> handler \<times> loop_exit" where
  "receiver_loop sv a tofs min_starttime max_endtime h [] = (h, Continue)"
| "receiver_loop sv a tofs min_starttime max_endtime h (v # vs) =
     (case visit_step sv a tofs min_starttime max_endtime h v of
        (h1, Continue) \<Rightarrow> receiver_loop sv a tofs min_starttime max_endtime h1 vs
      | (h1, Returned) \<Rightarrow> (h1, Returned)
      | (h1, Raise e) \<Rightarrow> (h1, Raise e))"

definition no_seismograms_msg :: string where
  "no_seismograms_msg =
     ''No seismograms found for the given phase relative offsets. This could either be due to the chosen phase not existing for the specific source-receiver geometry or arriving too late/with too large offsets if the database is not long enough.''"

text \<open>Lines 339 to 353: what follows the loop when it ran to its end.\<close>

definition finalize :: "args \<Rightarrow> handler \<Rightarrow> handler \<times> outcome" where
  "finalize a h =
     (if count h = 0 then (h, Raised (HTTPError 400 no_seismograms_msg))
      else
        let h' = (if format a = ''saczip''
                  then drain (h\<lparr>zip_buf := zip_buf h @ [ZipTrailer]\<rparr>)
                  else h)
        in (finish h', Completed))"

text \<open>
  \<^verbatim>\<open>FiniteSourceSeismogramsHandler.post\<close>, lines 238 to 353, after the arguments
  have been parsed and the receivers enumerated. Of the errors of the preparation only
  the \<^verbatim>\<open>HTTPError\<close> reaches the callback and is raised at line 251.
\<close>

definition post ::
  "float_div \<Rightarrow> source_lib \<Rightarrow> services \<Rightarrow> db_info \<Rightarrow> args \<Rightarrow> string \<Rightarrow> visit list
     \<Rightarrow> handler option \<times> outcome" where
  "post fd lib sv info a body visits =
     (case parse_and_resample_finite_source fd lib body info of
        Inl (HTTPError code msg) \<Rightarrow> (None, Raised (HTTPError code msg))
      | Inl _ \<Rightarrow> (None, NeverResumes)
      | Inr fs \<Rightarrow>
          (case parse_time_settings fd info a fs of
             (a', Inl e) \<Rightarrow> (None, Raised e)
           | (a', Inr (time_of_first_sample, min_starttime, max_endtime)) \<Rightarrow>
               (case receiver_loop sv a' time_of_first_sample min_starttime max_endtime
                       (init_handler fs) visits of
                  (h, Returned) \<Rightarrow> (Some h, ConnectionClosed)
                | (h, Raise e) \<Rightarrow> (Some h, Raised e)
                | (h, Continue) \<Rightarrow>
                    (case finalize a' h of (h', r) \<Rightarrow> (Some h', r)))))"

section \<open>Notions used in the statements\<close>

text \<open>The origin time as lines 168 and 169 leave it.\<close>

definition resolved_origin :: "args \<Rightarrow> real" where
  "resolved_origin a = (case origintime a of None \<Rightarrow> utc_date 1900 1 1 | Some t \<Rightarrow> t)"

text \<open>The arguments after lines 210 and 211, given the latest end.\<close>

definition with_default_endtime :: "args \<Rightarrow> real \<Rightarrow> args" where
  "with_default_endtime a latest =
     (case endtime a of None \<Rightarrow> a\<lparr>endtime := Some (UTCDateTime latest)\<rparr> | Some _ \<Rightarrow> a)"

text \<open>The number of padding samples when the quotient of line 94 is finite.\<close>

definition samples_of :: "float_div \<Rightarrow> db_info \<Rightarrow> int" where
  "samples_of fd info =
     (case fd (2 * info_period info) (info_dt info) of
        Finite q \<Rightarrow> \<lceil>q\<rceil> + 1
      | Infinite \<Rightarrow> 0
      | NotANumber \<Rightarrow> 0)"

text \<open>
  What one response adds to the output, in the words of the spec: in archive mode each
  named blob is appended as an archive entry, in stream mode the payload is written as
  it is.
\<close>

definition response_chunks :: "response \<Rightarrow> chunk list" where
  "response_chunks resp =
     (case resp of
        RespException e \<Rightarrow> []
      | RespList items \<Rightarrow> map (\<lambda>(filename, content). ZipEntry filename content) items
      | RespBytes b \<Rightarrow> [Payload b])"

text \<open>
  The entries of a list of receivers, in their order: a receiver without a window adds
  nothing, any other adds the chunks of its response. The source is passed on as the
  extraction leaves it.
\<close>

fun receiver_entries ::
  "services \<Rightarrow> args \<Rightarrow> real \<Rightarrow> real \<Rightarrow> real \<Rightarrow> finite_source \<Rightarrow> visit list \<Rightarrow> chunk list" where
  "receiver_entries sv a tofs min_starttime max_endtime fs [] = []"
| "receiver_entries sv a tofs min_starttime max_endtime fs (v # vs) =
     (case get_phase_relative_times sv a fs (visited v) min_starttime max_endtime of
        None \<Rightarrow> receiver_entries sv a tofs min_starttime max_endtime fs vs
      | Some (st, et) \<Rightarrow>
          (case get_finite_source sv fs (visited v) (components a) (units a) (dt a)
                  (kernelwidth a) st et tofs (format a) (label a) of
             (fs', resp) \<Rightarrow>
               response_chunks resp
                 @ receiver_entries sv a tofs min_starttime max_endtime fs' vs))"

subsection \<open>A concrete request\<close>

text \<open>
  A float division that returns the exact quotient. It agrees with the division of the
  runtime wherever the quotient is a double; in the examples below every quotient is a
  small integer.
\<close>

definition exact_div :: float_div where
  "exact_div x y = Finite (x / y)"

text \<open>
  A database of one hour at ten samples per second, a request with the default
  arguments and origin time zero, and a source whose time shift is zero and whose
  additional time shift is that of 41 padding samples.
\<close>

definition example_info :: db_info where
  "example_info = \<lparr>info_period = 2, info_dt = 1 / 10, info_npts = 36001, info_length = 3600\<rparr>"

definition example_args :: args where
  "example_args =
     \<lparr>components = ''ZNE'', units = ''displacement'', dt = None, kernelwidth = 12,
      label = None, origintime = Some 0, starttime = None, endtime = None,
      format = ''miniseed''\<rparr>"

definition example_source :: finite_source where
  "example_source =
     \<lparr>pointsources = [\<lparr>sliprate = [1, 2], ps_time_shift = 0, ps_position = (0, 0, 0)\<rparr>],
      read_time_shift = min_list, additional_time_shift = 41 / 10, origin_time = None,
      hypocenter = None\<rparr>"

subsection \<open>A concrete run of the handler\<close>

text \<open>
  A small database (ten samples, one per second), a library whose parser returns one
  point source with a time shift of 3 s, whose filter is the identity and whose resampler
  cuts or zero-pads to the requested length, and the source this library prepares: five
  padding samples. The time shift of a source is the smallest one of its point sources.
\<close>

definition small_info :: db_info where
  "small_info = \<lparr>info_period = 2, info_dt = 1, info_npts = 10, info_length = 9\<rparr>"

definition raw_source :: finite_source where
  "raw_source =
     \<lparr>pointsources = [\<lparr>sliprate = [1, 2], ps_time_shift = 3, ps_position = (0, 0, 0)\<rparr>],
      read_time_shift = min_list, additional_time_shift = 0, origin_time = None,
      hypocenter = None\<rparr>"

definition example_lib :: source_lib where
  "example_lib =
     \<lparr>from_usgs_param_file = (\<lambda>body npts d trise. if body = [] then None else Some raw_source),
      lp_series = (\<lambda>freq zerophase xs. xs),
      resample_series = (\<lambda>d n xs. take (nat n) (xs @ replicate (nat n) 0)),
      locate_hypocenter = (\<lambda>ps. (0, 0, 0))\<rparr>"

definition prepared_source :: finite_source where
  "prepared_source =
     \<lparr>pointsources =
        [\<lparr>sliprate = [0, 0, 0, 0, 0, 1, 2, 0, 0, 0, 0, 0, 0, 0, 0, 0, 0, 0, 0, 0],
          ps_time_shift = 8, ps_position = (0, 0, 0)\<rparr>],
      read_time_shift = min_list, additional_time_shift = 5, origin_time = None,
      hypocenter = Some (0, 0, 0)\<rparr>"

text \<open>
  The example request after its time settings have been resolved for the small
  database, whose window is \<open>(- 8, - 3, 1)\<close>, and the same request in archive mode.
\<close>

definition resolved_args :: args where
  "resolved_args =
     example_args\<lparr>starttime := Some (UTCDateTime 0), endtime := Some (UTCDateTime 1)\<rparr>"

definition archive_args :: args where
  "archive_args = example_args\<lparr>format := ''saczip''\<rparr>"

definition resolved_archive_args :: args where
  "resolved_archive_args = resolved_args\<lparr>format := ''saczip''\<rparr>"

text \<open>
  Three receivers and the services: station FAR has no window, the database query fails
  for station BAD, and any other station yields its name, as MiniSEED bytes or, in
  archive mode, as the content of two named SAC files.
\<close>

definition example_receiver :: receiver where
  "example_receiver = \<lparr>network = ''XX'', station = ''SYN'', latitude = 10, longitude = 20\<rparr>"

definition far_receiver :: receiver where
  "far_receiver = \<lparr>network = ''XX'', station = ''FAR'', latitude = 10, longitude = 150\<rparr>"

definition bad_receiver :: receiver where
  "bad_receiver = \<lparr>network = ''XX'', station = ''BAD'', latitude = 10, longitude = 30\<rparr>"

definition example_services :: services where
  "example_services =
     \<lparr>get_seismograms_finite_source =
        (\<lambda>fs rc comps un d kw.
           if station rc = ''BAD'' then None else Some [\<lparr>tr_starttime = 0, tr_data = [0]\<rparr>]),
      validate_and_write_waveforms =
        (\<lambda>st s e fs rc lbl fmt.
           if fmt = ''saczip''
           then RespList [(station rc @ ''.Z'', station rc), (station rc @ ''.N'', station rc)]
           else RespBytes (station rc)),
      get_phase_relative_times =
        (\<lambda>a fs rc mn mx. if station rc = ''FAR'' then None else Some (mn, mx))\<rparr>"

text \<open>Visits during which the connection stays open, is found closed at line 283, or is found closed at line 312.\<close>

definition open_visit :: "receiver \<Rightarrow> visit" where
  "open_visit rc = \<lparr>visited = rc, closed_before = False, closed_after = False\<rparr>"

definition closed_visit :: "receiver \<Rightarrow> visit" where
  "closed_visit rc = \<lparr>visited = rc, closed_before = True, closed_after = False\<rparr>"

definition closing_visit :: "receiver \<Rightarrow> visit" where
  "closing_visit rc = \<lparr>visited = rc, closed_before = False, closed_after = True\<rparr>"

text \<open>
  The state of the handler after one and after two successful extractions in stream
  mode, and after one in archive mode.
\<close>

definition after_one :: handler where
  "after_one =
     \<lparr>written = [Payload ''SYN''], flushed = 1, finished = False, zip_buf = [], count = 1,
      source = prepared_source\<lparr>origin_time := Some (- 3)\<rparr>, dispatched = [example_receiver]\<rparr>"

definition after_two :: handler where
  "after_two =
     \<lparr>written = [Payload ''SYN'', Payload ''SYN''], flushed = 2, finished = False, zip_buf = [],
      count = 2, source = prepared_source\<lparr>origin_time := Some (- 3)\<rparr>,
      dispatched = [example_receiver, example_receiver]\<rparr>"

definition archive_after_one :: handler where
  "archive_after_one =
     \<lparr>written = [ZipEntry ''SYN.Z'' ''SYN'', ZipEntry ''SYN.N'' ''SYN''], flushed = 2,
      finished = False, zip_buf = [], count = 1,
      source = prepared_source\<lparr>origin_time := Some (- 3)\<rparr>, dispatched = [example_receiver]\<rparr>"

section \<open>Properties\<close>

lemma default_origin_time_value: "default_origin_time = - 2208988800"
  by (simp add: default_origin_time_def utc_date_def days_from_civil_def)

subsection \<open>The margin of the interpolation kernel\<close>

lemma margin_applies_at_native_dt:
  "info_dt info \<noteq> 0 \<Longrightarrow> dt a = Some (info_dt info) \<Longrightarrow>
   fd (info_dt info) (info_dt info) = Finite 1 \<Longrightarrow>
   resampling_margin_applies fd info a = Inr True"
  by (simp add: resampling_margin_applies_def py_round6_def)

text \<open>
  Claim C1. The latest end is the time of the first sample plus the length of the
  database, and the margin \<open>kernelwidth * dt\<close> of the database is meant to be taken off
  only when the requested \<open>dt\<close> differs from the native one. The test of line 205
  compares the rounded ratio with 0, not with 1: for a request whose \<open>dt\<close> equals the
  native \<open>dt\<close> the ratio is 1, and the margin of 12 samples (1.2 s) is taken off the
  latest end of 3600 s. The float division of a number by itself is exactly 1.
\<close>

theorem margin_subtracted_at_native_dt:
  "dt (example_args\<lparr>dt := Some (1 / 10)\<rparr>) = Some (info_dt example_info)
   \<and> snd (parse_time_settings exact_div example_info (example_args\<lparr>dt := Some (1 / 10)\<rparr>) example_source)
       = Inr (0, 41 / 10, 3600 - 12 * (1 / 10))"
  by (simp add: parse_time_settings_def resolve_float_settings_def time_window_def
      resampling_margin_applies_def py_round6_def check_starttime_def check_endtime_def
      utc_ge_def utc_lt_def utc_le_def microseconds_def time_shift_def exact_div_def
      example_args_def example_info_def example_source_def)

subsection \<open>Defaults and float offsets\<close>

lemma resolve_never_asserts: "snd (resolve_float_settings a) = None"
  by (auto simp add: resolve_float_settings_def Let_def split: option.splits timesetting.splits)

lemma resolve_origintime:
  "origintime (fst (resolve_float_settings a)) = Some (resolved_origin a)"
  by (auto simp add: resolve_float_settings_def resolved_origin_def default_origin_time_def Let_def
      split: option.splits timesetting.splits)

lemma resolve_keeps_dt:
  "dt (fst (resolve_float_settings a)) = dt a \<and> kernelwidth (fst (resolve_float_settings a)) = kernelwidth a"
  by (auto simp add: resolve_float_settings_def Let_def split: option.splits timesetting.splits)

lemma resolve_starttime:
  "starttime (fst (resolve_float_settings a)) =
     (case starttime a of
        None \<Rightarrow> Some (UTCDateTime (resolved_origin a))
      | Some (Float off) \<Rightarrow> Some (UTCDateTime (resolved_origin a + off))
      | Some s \<Rightarrow> Some s)"
  by (auto simp add: resolve_float_settings_def resolved_origin_def default_origin_time_def Let_def
      split: option.splits timesetting.splits)

lemma resolve_endtime:
  "endtime (fst (resolve_float_settings a)) =
     (case endtime a of
        Some (Float off) \<Rightarrow>
          (case starttime (fst (resolve_float_settings a)) of
             Some (UTCDateTime s) \<Rightarrow> Some (UTCDateTime (s + off))
           | _ \<Rightarrow> Some (Float off))
      | e \<Rightarrow> e)"
  by (auto simp add: resolve_float_settings_def Let_def split: option.splits timesetting.splits)

lemma time_window_cong:
  "dt a' = dt a \<Longrightarrow> kernelwidth a' = kernelwidth a \<Longrightarrow>
   time_window fd info a' fs t = time_window fd info a fs t"
  by (simp add: time_window_def resampling_margin_applies_def Let_def
      split: sum.splits bool.splits option.splits pyfloat.splits)

lemma parse_time_settings_window:
  assumes "time_window fd info a fs (resolved_origin a) = Inr (tofs, earliest, latest)"
  shows "parse_time_settings fd info a fs =
           (let a4 = with_default_endtime (fst (resolve_float_settings a)) latest
            in (a4, case check_starttime (starttime a4) earliest latest of
                      Some e \<Rightarrow> Inl e
                    | None \<Rightarrow> (case check_endtime (endtime a4) earliest latest of
                          Some e \<Rightarrow> Inl e
                        | None \<Rightarrow> Inr (tofs, earliest, latest))))"
proof -
  obtain a3 where a3: "resolve_float_settings a = (a3, None)"
    using resolve_never_asserts [of a] by (cases "resolve_float_settings a") auto
  have o: "origintime a3 = Some (resolved_origin a)"
    using resolve_origintime [of a] a3 by simp
  have "time_window fd info a3 fs (resolved_origin a) = time_window fd info a fs (resolved_origin a)"
    using resolve_keeps_dt [of a] a3 by (intro time_window_cong) simp_all
  with assms have w: "time_window fd info a3 fs (resolved_origin a) = Inr (tofs, earliest, latest)"
    by simp
  show ?thesis
    by (simp add: parse_time_settings_def a3 o w with_default_endtime_def Let_def
        split: option.splits)
qed

lemma parse_time_settings_no_window:
  assumes "time_window fd info a fs (resolved_origin a) = Inl e"
  shows "parse_time_settings fd info a fs = (fst (resolve_float_settings a), Inl e)"
proof -
  obtain a3 where a3: "resolve_float_settings a = (a3, None)"
    using resolve_never_asserts [of a] by (cases "resolve_float_settings a") auto
  have o: "origintime a3 = Some (resolved_origin a)"
    using resolve_origintime [of a] a3 by simp
  have "time_window fd info a3 fs (resolved_origin a) = time_window fd info a fs (resolved_origin a)"
    using resolve_keeps_dt [of a] a3 by (intro time_window_cong) simp_all
  with assms have w: "time_window fd info a3 fs (resolved_origin a) = Inl e"
    by simp
  show ?thesis
    by (simp add: parse_time_settings_def a3 o w)
qed

lemma with_default_starttime [simp]: "starttime (with_default_endtime a l) = starttime a"
  by (simp add: with_default_endtime_def split: option.splits)

lemma with_default_origintime [simp]: "origintime (with_default_endtime a l) = origintime a"
  by (simp add: with_default_endtime_def split: option.splits)

lemma parse_starttime:
  "starttime (fst (parse_time_settings fd info a fs)) = starttime (fst (resolve_float_settings a))"
proof (cases "time_window fd info a fs (resolved_origin a)")
  case (Inl e)
  then show ?thesis by (simp add: parse_time_settings_no_window)
next
  case (Inr w)
  then show ?thesis by (cases w) (simp add: parse_time_settings_window Let_def)
qed

lemma parse_origintime:
  "origintime (fst (parse_time_settings fd info a fs)) = Some (resolved_origin a)"
proof (cases "time_window fd info a fs (resolved_origin a)")
  case (Inl e)
  then show ?thesis by (simp add: parse_time_settings_no_window resolve_origintime)
next
  case (Inr w)
  then show ?thesis by (cases w) (simp add: parse_time_settings_window Let_def resolve_origintime)
qed

lemma parse_endtime_given:
  "endtime (fst (resolve_float_settings a)) = Some e \<Longrightarrow>
   endtime (fst (parse_time_settings fd info a fs)) = Some e"
proof (cases "time_window fd info a fs (resolved_origin a)")
  case (Inl err)
  assume "endtime (fst (resolve_float_settings a)) = Some e"
  with Inl show ?thesis by (simp add: parse_time_settings_no_window)
next
  case (Inr w)
  assume "endtime (fst (resolve_float_settings a)) = Some e"
  with Inr show ?thesis
    by (cases w) (simp add: parse_time_settings_window Let_def with_default_endtime_def)
qed

text \<open>
  Claim C3. After \<^verbatim>\<open>parse_time_settings\<close> the origin time is set: to the fixed epoch
  1900-01-01 when the request gave none, to the given time otherwise. An unset start
  time becomes the origin time; a float start offset \<open>off\<close> becomes the absolute time
  \<open>origin + off\<close>. A float end offset becomes \<open>start + offset\<close> when the start time is
  absolute after these steps, and stays a float, with the start time untouched, when the
  start time is relative to a phase.
\<close>

theorem time_settings_resolution:
  "origintime (fst (parse_time_settings fd info a fs)) = Some (resolved_origin a)
   \<and> (origintime a = None \<longrightarrow> resolved_origin a = utc_date 1900 1 1)
   \<and> (origintime a = Some T0 \<longrightarrow> resolved_origin a = T0)
   \<and> (starttime a = None \<longrightarrow>
        starttime (fst (parse_time_settings fd info a fs)) = Some (UTCDateTime (resolved_origin a)))
   \<and> (starttime a = Some (Float off) \<longrightarrow>
        starttime (fst (parse_time_settings fd info a fs))
          = Some (UTCDateTime (resolved_origin a + off)))
   \<and> (endtime a = Some (Float eoff)
        \<and> starttime (fst (parse_time_settings fd info a fs)) = Some (UTCDateTime s) \<longrightarrow>
        endtime (fst (parse_time_settings fd info a fs)) = Some (UTCDateTime (s + eoff)))
   \<and> (endtime a = Some (Float eoff) \<and> starttime a = Some (AttribDict ph po) \<longrightarrow>
        starttime (fst (parse_time_settings fd info a fs)) = Some (AttribDict ph po)
        \<and> endtime (fst (parse_time_settings fd info a fs)) = Some (Float eoff))"
proof (intro conjI impI)
  show "origintime (fst (parse_time_settings fd info a fs)) = Some (resolved_origin a)"
    by (rule parse_origintime)
next
  assume "origintime a = None"
  then show "resolved_origin a = utc_date 1900 1 1" by (simp add: resolved_origin_def)
next
  assume "origintime a = Some T0"
  then show "resolved_origin a = T0" by (simp add: resolved_origin_def)
next
  assume "starttime a = None"
  then show "starttime (fst (parse_time_settings fd info a fs)) = Some (UTCDateTime (resolved_origin a))"
    by (simp add: parse_starttime resolve_starttime)
next
  assume "starttime a = Some (Float off)"
  then show "starttime (fst (parse_time_settings fd info a fs))
          = Some (UTCDateTime (resolved_origin a + off))"
    by (simp add: parse_starttime resolve_starttime)
next
  assume h: "endtime a = Some (Float eoff)
        \<and> starttime (fst (parse_time_settings fd info a fs)) = Some (UTCDateTime s)"
  then have "endtime (fst (resolve_float_settings a)) = Some (UTCDateTime (s + eoff))"
    by (simp add: resolve_endtime parse_starttime)
  then show "endtime (fst (parse_time_settings fd info a fs)) = Some (UTCDateTime (s + eoff))"
    by (rule parse_endtime_given)
next
  assume h: "endtime a = Some (Float eoff) \<and> starttime a = Some (AttribDict ph po)"
  then show "starttime (fst (parse_time_settings fd info a fs)) = Some (AttribDict ph po)"
    by (simp add: parse_starttime resolve_starttime)
next
  assume h: "endtime a = Some (Float eoff) \<and> starttime a = Some (AttribDict ph po)"
  then have "endtime (fst (resolve_float_settings a)) = Some (Float eoff)"
    by (simp add: resolve_endtime resolve_starttime)
  then show "endtime (fst (parse_time_settings fd info a fs)) = Some (Float eoff)"
    by (rule parse_endtime_given)
qed

subsection \<open>Validation against the window\<close>

lemma check_endtime_error:
  "check_endtime et earliest latest = Some e \<Longrightarrow> e = HTTPError 400 endtime_msg"
  by (auto simp: check_endtime_def split: option.splits timesetting.splits if_splits)

lemma check_starttime_error:
  "check_starttime st earliest latest = Some e \<Longrightarrow>
     e = HTTPError 400 starttime_msg \<or> e = HTTPError 400 one_hour_msg"
  by (auto simp: check_starttime_def split: option.splits timesetting.splits if_splits)

lemma msgs_distinct:
  "starttime_msg \<noteq> endtime_msg" "one_hour_msg \<noteq> endtime_msg" "starttime_msg \<noteq> one_hour_msg"
  by (simp_all add: starttime_msg_def endtime_msg_def one_hour_msg_def)

lemma parse_fst_window:
  assumes "time_window fd info a fs (resolved_origin a) = Inr (tofs, earliest, latest)"
  shows "fst (parse_time_settings fd info a fs)
           = with_default_endtime (fst (resolve_float_settings a)) latest"
  by (simp add: parse_time_settings_window [OF assms] Let_def)

lemma parse_snd_window:
  assumes "time_window fd info a fs (resolved_origin a) = Inr (tofs, earliest, latest)"
  shows "snd (parse_time_settings fd info a fs) =
           (case check_starttime (starttime (fst (parse_time_settings fd info a fs))) earliest latest of
              Some e \<Rightarrow> Inl e
            | None \<Rightarrow>
                (case check_endtime (endtime (fst (parse_time_settings fd info a fs))) earliest latest of
                   Some e \<Rightarrow> Inl e
                 | None \<Rightarrow> Inr (tofs, earliest, latest)))"
  unfolding parse_fst_window [OF assms]
  by (simp add: parse_time_settings_window [OF assms] Let_def)

lemma microseconds_close:
  "\<bar>real_of_int (microseconds t) - t * 1000000\<bar> \<le> 1 / 2"
proof -
  let ?s = "t * 1000000"
  have "real_of_int \<lfloor>?s\<rfloor> \<le> ?s" "?s < real_of_int \<lfloor>?s\<rfloor> + 1"
    by linarith+
  then show ?thesis
    by (auto simp: microseconds_def Let_def)
qed

lemma microseconds_mono:
  assumes "t \<le> u"
  shows "microseconds t \<le> microseconds u"
proof (cases "t = u")
  case True
  then show ?thesis by simp
next
  case False
  with assms have "t * 1000000 < u * 1000000" by simp
  with microseconds_close [of t] microseconds_close [of u]
  have "real_of_int (microseconds t) < real_of_int (microseconds u) + 1" by linarith
  then have "microseconds t < microseconds u + 1" by linarith
  then show ?thesis by simp
qed

lemma microseconds_gap:
  assumes "t < u - 1 / 1000000"
  shows "microseconds t < microseconds u"
proof -
  from assms have "t * 1000000 < u * 1000000 - 1" by (simp add: field_simps)
  with microseconds_close [of t] microseconds_close [of u]
  have "real_of_int (microseconds t) < real_of_int (microseconds u)" by linarith
  then show ?thesis by linarith
qed

text \<open>
  Claim C4, amended. Let the window \<open>(tofs, earliest, latest)\<close> be computed. An absolute
  start time at or after \<open>latest\<close> raises the 400 error of line 219. The check of line 222
  compares the times rounded to microseconds: a start time whose microsecond lies before
  that of \<open>earliest - 3600\<close>, and so every start time more than a microsecond below
  \<open>earliest - 3600\<close>, raises a 400 error, that of line 225 when its microsecond also lies
  before that of \<open>latest\<close>. A start time in the same microsecond as \<open>earliest - 3600\<close>,
  such as \<open>earliest - 3600\<close> itself, raises neither error when its microsecond lies
  before that of \<open>latest\<close>, and the call returns the window when the end time passes its
  own check. A start time relative to a phase is not checked: neither error is raised.
\<close>

theorem starttime_validation:
  assumes "time_window fd info a fs (resolved_origin a) = Inr (tofs, earliest, latest)"
  shows
    "(starttime (fst (parse_time_settings fd info a fs)) = Some (UTCDateTime s) \<and> s \<ge> latest \<longrightarrow>
        snd (parse_time_settings fd info a fs) = Inl (HTTPError 400 starttime_msg))
     \<and> (starttime (fst (parse_time_settings fd info a fs)) = Some (UTCDateTime s)
          \<and> microseconds s < microseconds (earliest - 3600) \<longrightarrow>
        (\<exists>msg. snd (parse_time_settings fd info a fs) = Inl (HTTPError 400 msg))
        \<and> (microseconds s < microseconds latest \<longrightarrow>
             snd (parse_time_settings fd info a fs) = Inl (HTTPError 400 one_hour_msg)))
     \<and> (starttime (fst (parse_time_settings fd info a fs)) = Some (UTCDateTime s)
          \<and> s < earliest - 3600 - 1 / 1000000 \<longrightarrow>
        (\<exists>msg. snd (parse_time_settings fd info a fs) = Inl (HTTPError 400 msg)))
     \<and> (starttime (fst (parse_time_settings fd info a fs)) = Some (UTCDateTime s)
          \<and> microseconds s = microseconds (earliest - 3600)
          \<and> microseconds s < microseconds latest \<longrightarrow>
        snd (parse_time_settings fd info a fs) \<noteq> Inl (HTTPError 400 starttime_msg)
        \<and> snd (parse_time_settings fd info a fs) \<noteq> Inl (HTTPError 400 one_hour_msg)
        \<and> (check_endtime (endtime (fst (parse_time_settings fd info a fs))) earliest latest = None
             \<longrightarrow> snd (parse_time_settings fd info a fs) = Inr (tofs, earliest, latest)))
     \<and> (starttime (fst (parse_time_settings fd info a fs)) = Some (UTCDateTime (earliest - 3600))
          \<and> microseconds (earliest - 3600) < microseconds latest \<longrightarrow>
        snd (parse_time_settings fd info a fs) \<noteq> Inl (HTTPError 400 starttime_msg)
        \<and> snd (parse_time_settings fd info a fs) \<noteq> Inl (HTTPError 400 one_hour_msg)
        \<and> (check_endtime (endtime (fst (parse_time_settings fd info a fs))) earliest latest = None
             \<longrightarrow> snd (parse_time_settings fd info a fs) = Inr (tofs, earliest, latest)))
     \<and> (starttime a = Some (AttribDict ph po) \<longrightarrow>
        snd (parse_time_settings fd info a fs) \<noteq> Inl (HTTPError 400 starttime_msg)
        \<and> snd (parse_time_settings fd info a fs) \<noteq> Inl (HTTPError 400 one_hour_msg)
        \<and> (check_endtime (endtime (fst (parse_time_settings fd info a fs))) earliest latest = None
             \<longrightarrow> snd (parse_time_settings fd info a fs) = Inr (tofs, earliest, latest)))"
proof -
  let ?a' = "fst (parse_time_settings fd info a fs)"
  let ?r = "snd (parse_time_settings fd info a fs)"
  note r = parse_snd_window [OF assms]
  have late: "?r = Inl (HTTPError 400 starttime_msg)"
    if "starttime ?a' = Some (UTCDateTime s)" "s \<ge> latest"
    using that microseconds_mono [of latest s]
    by (simp add: r check_starttime_def utc_ge_def)
  have early: "?r = Inl (HTTPError 400 one_hour_msg)"
    if "starttime ?a' = Some (UTCDateTime s)"
       "microseconds s < microseconds (earliest - 3600)" "microseconds s < microseconds latest"
    using that by (simp add: r check_starttime_def utc_ge_def utc_lt_def)
  have early_any: "\<exists>msg. ?r = Inl (HTTPError 400 msg)"
    if "starttime ?a' = Some (UTCDateTime s)"
       "microseconds s < microseconds (earliest - 3600)"
    using that by (simp add: r check_starttime_def utc_ge_def utc_lt_def)
  have passes: "?r \<noteq> Inl (HTTPError 400 starttime_msg) \<and> ?r \<noteq> Inl (HTTPError 400 one_hour_msg)
      \<and> (check_endtime (endtime ?a') earliest latest = None \<longrightarrow> ?r = Inr (tofs, earliest, latest))"
    if "check_starttime (starttime ?a') earliest latest = None"
    using that msgs_distinct
    by (auto simp: r split: option.splits dest: check_endtime_error)
  have boundary: "check_starttime (starttime ?a') earliest latest = None"
    if "starttime ?a' = Some (UTCDateTime t)"
       "microseconds t = microseconds (earliest - 3600)" "microseconds t < microseconds latest"
    for t
    using that by (simp add: check_starttime_def utc_ge_def utc_lt_def)
  have phase: "check_starttime (starttime ?a') earliest latest = None"
    if "starttime a = Some (AttribDict ph po)"
    using that by (simp add: parse_starttime resolve_starttime check_starttime_def)
  have c1: "starttime ?a' = Some (UTCDateTime s) \<and> s \<ge> latest \<longrightarrow>
      ?r = Inl (HTTPError 400 starttime_msg)"
    using late by simp
  have c2: "starttime ?a' = Some (UTCDateTime s)
        \<and> microseconds s < microseconds (earliest - 3600) \<longrightarrow>
      (\<exists>msg. ?r = Inl (HTTPError 400 msg))
      \<and> (microseconds s < microseconds latest \<longrightarrow> ?r = Inl (HTTPError 400 one_hour_msg))"
    using early early_any by simp
  have c3: "starttime ?a' = Some (UTCDateTime s) \<and> s < earliest - 3600 - 1 / 1000000 \<longrightarrow>
      (\<exists>msg. ?r = Inl (HTTPError 400 msg))"
    using early_any microseconds_gap [of s "earliest - 3600"] by simp
  have c4: "starttime ?a' = Some (UTCDateTime s)
        \<and> microseconds s = microseconds (earliest - 3600)
        \<and> microseconds s < microseconds latest \<longrightarrow>
      ?r \<noteq> Inl (HTTPError 400 starttime_msg) \<and> ?r \<noteq> Inl (HTTPError 400 one_hour_msg)
      \<and> (check_endtime (endtime ?a') earliest latest = None
           \<longrightarrow> ?r = Inr (tofs, earliest, latest))"
    using passes [OF boundary [of s]] by simp
  have c5: "starttime ?a' = Some (UTCDateTime (earliest - 3600))
        \<and> microseconds (earliest - 3600) < microseconds latest \<longrightarrow>
      ?r \<noteq> Inl (HTTPError 400 starttime_msg) \<and> ?r \<noteq> Inl (HTTPError 400 one_hour_msg)
      \<and> (check_endtime (endtime ?a') earliest latest = None
           \<longrightarrow> ?r = Inr (tofs, earliest, latest))"
    using passes [OF boundary [of "earliest - 3600"]] by simp
  have c6: "starttime a = Some (AttribDict ph po) \<longrightarrow>
      ?r \<noteq> Inl (HTTPError 400 starttime_msg) \<and> ?r \<noteq> Inl (HTTPError 400 one_hour_msg)
      \<and> (check_endtime (endtime ?a') earliest latest = None
           \<longrightarrow> ?r = Inr (tofs, earliest, latest))"
    using passes [OF phase] by simp
  show ?thesis
    by (intro conjI c1 c2 c3 c4 c5 c6)
qed

text \<open>
  Claim C5, amended. Let the window \<open>(tofs, earliest, latest)\<close> be computed. An end time
  that is unset is set to \<open>latest\<close>. The check of line 229 compares the times rounded to
  microseconds: an absolute end time whose microsecond lies before that of \<open>earliest\<close> or
  after that of \<open>latest\<close>, and so every end time more than a microsecond outside
  \<open>[earliest, latest]\<close>, raises a 400 error, that of line 232 when the start time passes
  its checks. An absolute end time whose microsecond lies between those of the two
  bounds, and so every end time inside the closed interval, does not raise the error of
  line 232, and the call returns the window when the start time passes its checks.
\<close>

theorem endtime_validation:
  assumes "time_window fd info a fs (resolved_origin a) = Inr (tofs, earliest, latest)"
  shows
    "(endtime a = None \<longrightarrow>
        endtime (fst (parse_time_settings fd info a fs)) = Some (UTCDateTime latest))
     \<and> (endtime (fst (parse_time_settings fd info a fs)) = Some (UTCDateTime e)
          \<and> (microseconds e < microseconds earliest \<or> microseconds latest < microseconds e) \<longrightarrow>
        (\<exists>msg. snd (parse_time_settings fd info a fs) = Inl (HTTPError 400 msg))
        \<and> (check_starttime (starttime (fst (parse_time_settings fd info a fs))) earliest latest = None
             \<longrightarrow> snd (parse_time_settings fd info a fs) = Inl (HTTPError 400 endtime_msg)))
     \<and> (endtime (fst (parse_time_settings fd info a fs)) = Some (UTCDateTime e)
          \<and> (e < earliest - 1 / 1000000 \<or> latest + 1 / 1000000 < e) \<longrightarrow>
        (\<exists>msg. snd (parse_time_settings fd info a fs) = Inl (HTTPError 400 msg))
        \<and> (check_starttime (starttime (fst (parse_time_settings fd info a fs))) earliest latest = None
             \<longrightarrow> snd (parse_time_settings fd info a fs) = Inl (HTTPError 400 endtime_msg)))
     \<and> (endtime (fst (parse_time_settings fd info a fs)) = Some (UTCDateTime e)
          \<and> microseconds earliest \<le> microseconds e \<and> microseconds e \<le> microseconds latest \<longrightarrow>
        snd (parse_time_settings fd info a fs) \<noteq> Inl (HTTPError 400 endtime_msg)
        \<and> (check_starttime (starttime (fst (parse_time_settings fd info a fs))) earliest latest = None
             \<longrightarrow> snd (parse_time_settings fd info a fs) = Inr (tofs, earliest, latest)))
     \<and> (endtime (fst (parse_time_settings fd info a fs)) = Some (UTCDateTime e)
          \<and> earliest \<le> e \<and> e \<le> latest \<longrightarrow>
        snd (parse_time_settings fd info a fs) \<noteq> Inl (HTTPError 400 endtime_msg)
        \<and> (check_starttime (starttime (fst (parse_time_settings fd info a fs))) earliest latest = None
             \<longrightarrow> snd (parse_time_settings fd info a fs) = Inr (tofs, earliest, latest)))"
proof -
  let ?a' = "fst (parse_time_settings fd info a fs)"
  let ?r = "snd (parse_time_settings fd info a fs)"
  note r = parse_snd_window [OF assms]
  have unset: "endtime ?a' = Some (UTCDateTime latest)" if "endtime a = None"
  proof -
    from that have "endtime (fst (resolve_float_settings a)) = None"
      by (simp add: resolve_endtime)
    then show ?thesis
      by (simp add: parse_time_settings_window [OF assms] Let_def with_default_endtime_def)
  qed
  have outside: "check_endtime (endtime ?a') earliest latest = Some (HTTPError 400 endtime_msg)"
    if "endtime ?a' = Some (UTCDateTime e)"
       "microseconds e < microseconds earliest \<or> microseconds latest < microseconds e"
    using that by (auto simp add: check_endtime_def utc_le_def)
  have far: "microseconds e < microseconds earliest \<or> microseconds latest < microseconds e"
    if "e < earliest - 1 / 1000000 \<or> latest + 1 / 1000000 < e"
    using that microseconds_gap [of e earliest] microseconds_gap [of latest e] by auto
  have inside: "check_endtime (endtime ?a') earliest latest = None"
    if "endtime ?a' = Some (UTCDateTime e)"
       "microseconds earliest \<le> microseconds e" "microseconds e \<le> microseconds latest"
    using that by (simp add: check_endtime_def utc_le_def)
  have out_any: "\<exists>msg. ?r = Inl (HTTPError 400 msg)"
    if "check_endtime (endtime ?a') earliest latest = Some (HTTPError 400 endtime_msg)"
    using that by (auto simp: r split: option.splits dest: check_starttime_error)
  have out_end: "?r = Inl (HTTPError 400 endtime_msg)"
    if "check_endtime (endtime ?a') earliest latest = Some (HTTPError 400 endtime_msg)"
       "check_starttime (starttime ?a') earliest latest = None"
    using that by (simp add: r)
  have in_ok: "?r \<noteq> Inl (HTTPError 400 endtime_msg)"
    if "check_endtime (endtime ?a') earliest latest = None"
    using that msgs_distinct
    by (auto simp: r split: option.splits dest: check_starttime_error)
  have in_ret: "?r = Inr (tofs, earliest, latest)"
    if "check_endtime (endtime ?a') earliest latest = None"
       "check_starttime (starttime ?a') earliest latest = None"
    using that by (simp add: r)
  have c1: "endtime a = None \<longrightarrow> endtime ?a' = Some (UTCDateTime latest)"
    using unset by simp
  have c2: "endtime ?a' = Some (UTCDateTime e)
        \<and> (microseconds e < microseconds earliest \<or> microseconds latest < microseconds e) \<longrightarrow>
      (\<exists>msg. ?r = Inl (HTTPError 400 msg))
      \<and> (check_starttime (starttime ?a') earliest latest = None
           \<longrightarrow> ?r = Inl (HTTPError 400 endtime_msg))"
    using out_any [OF outside] out_end [OF outside] by simp
  have c3: "endtime ?a' = Some (UTCDateTime e)
        \<and> (e < earliest - 1 / 1000000 \<or> latest + 1 / 1000000 < e) \<longrightarrow>
      (\<exists>msg. ?r = Inl (HTTPError 400 msg))
      \<and> (check_starttime (starttime ?a') earliest latest = None
           \<longrightarrow> ?r = Inl (HTTPError 400 endtime_msg))"
    using out_any [OF outside] out_end [OF outside] far by simp
  have c4: "endtime ?a' = Some (UTCDateTime e)
        \<and> microseconds earliest \<le> microseconds e \<and> microseconds e \<le> microseconds latest \<longrightarrow>
      ?r \<noteq> Inl (HTTPError 400 endtime_msg)
      \<and> (check_starttime (starttime ?a') earliest latest = None
           \<longrightarrow> ?r = Inr (tofs, earliest, latest))"
    using in_ok [OF inside] in_ret [OF inside] by simp
  have c5: "endtime ?a' = Some (UTCDateTime e) \<and> earliest \<le> e \<and> e \<le> latest \<longrightarrow>
      ?r \<noteq> Inl (HTTPError 400 endtime_msg)
      \<and> (check_starttime (starttime ?a') earliest latest = None
           \<longrightarrow> ?r = Inr (tofs, earliest, latest))"
    using in_ok [OF inside] in_ret [OF inside]
      microseconds_mono [of earliest e] microseconds_mono [of e latest]
    by simp
  show ?thesis
    by (intro conjI c1 c2 c3 c4 c5)
qed

subsection \<open>Preparation and the window\<close>

lemma pad_finite_source_Inr:
  assumes "pad_finite_source fd info fs0 = Inr (samples, fs2)"
  shows "info_dt info \<noteq> 0"
    and "\<exists>q. fd (2 * info_period info) (info_dt info) = Finite q \<and> samples = \<lceil>q\<rceil> + 1"
    and "samples = samples_of fd info" and "0 \<le> samples"
    and "fs2 = fs0\<lparr>pointsources :=
                     map (pad_pointsource (nat samples) (of_int samples * info_dt info))
                       (pointsources fs0),
                   additional_time_shift := of_int samples * info_dt info\<rparr>"
  using assms
  by (auto simp: pad_finite_source_def padding_samples_def samples_of_def Let_def
      split: if_splits pyfloat.splits)

lemma prepare_Inr:
  assumes "from_usgs_param_file lib body 10000 (1 / 10) 1 = Some fs0"
      and "parse_and_resample_finite_source fd lib body info = Inr fs"
  shows "\<exists>fs2. pad_finite_source fd info fs0 = Inr (samples_of fd info, fs2)
           \<and> info_period info \<noteq> 0
           \<and> fs = find_hypocenter lib
                   (resample_sliprate lib (info_dt info) (info_npts info + 2 * samples_of fd info)
                     (lp_sliprate lib (1 / info_period info) True fs2))"
proof (cases "pad_finite_source fd info fs0")
  case (Inl e)
  with assms show ?thesis by (simp add: parse_and_resample_finite_source_def)
next
  case (Inr p)
  obtain samples fs2 where p: "p = (samples, fs2)" by (cases p)
  from pad_finite_source_Inr(3) [of fd info fs0 samples fs2] Inr p
  have s: "samples = samples_of fd info" by simp
  from assms Inr p s show ?thesis
    by (auto simp: parse_and_resample_finite_source_def Let_def split: if_splits)
qed

lemma prepared_pointsources:
  assumes "from_usgs_param_file lib body 10000 (1 / 10) 1 = Some fs0"
      and "parse_and_resample_finite_source fd lib body info = Inr fs"
  shows "pointsources fs =
           map (\<lambda>ps. ps\<lparr>sliprate :=
                  resample_series lib (info_dt info) (info_npts info + 2 * samples_of fd info)
                    (lp_series lib (1 / info_period info) True
                      (replicate (nat (samples_of fd info)) 0 @ sliprate ps
                         @ replicate (nat (samples_of fd info)) 0)),
                  ps_time_shift := ps_time_shift ps + of_int (samples_of fd info) * info_dt info\<rparr>)
             (pointsources fs0)"
proof -
  from prepare_Inr [OF assms] obtain fs2 where
    pad: "pad_finite_source fd info fs0 = Inr (samples_of fd info, fs2)" and
    fs: "fs = find_hypocenter lib
                (resample_sliprate lib (info_dt info) (info_npts info + 2 * samples_of fd info)
                  (lp_sliprate lib (1 / info_period info) True fs2))"
    by blast
  have "pointsources fs2 =
          map (pad_pointsource (nat (samples_of fd info)) (of_int (samples_of fd info) * info_dt info))
            (pointsources fs0)"
    by (subst pad_finite_source_Inr(5) [OF pad]) simp
  then show ?thesis
    by (simp add: fs find_hypocenter_def resample_sliprate_def lp_sliprate_def
        pad_pointsource_def comp_def)
qed

lemma prepared_shifts:
  assumes "from_usgs_param_file lib body 10000 (1 / 10) 1 = Some fs0"
      and "parse_and_resample_finite_source fd lib body info = Inr fs"
  shows "read_time_shift fs = read_time_shift fs0"
    and "additional_time_shift fs = of_int (samples_of fd info) * info_dt info"
    and "info_dt info \<noteq> 0" and "0 \<le> samples_of fd info"
    and "\<exists>q. fd (2 * info_period info) (info_dt info) = Finite q \<and> samples_of fd info = \<lceil>q\<rceil> + 1"
proof -
  from prepare_Inr [OF assms] obtain fs2 where
    pad: "pad_finite_source fd info fs0 = Inr (samples_of fd info, fs2)" and
    fs: "fs = find_hypocenter lib
                (resample_sliprate lib (info_dt info) (info_npts info + 2 * samples_of fd info)
                  (lp_sliprate lib (1 / info_period info) True fs2))"
    by blast
  note p = pad_finite_source_Inr [OF pad]
  from p(1,4,2) show "info_dt info \<noteq> 0" and "0 \<le> samples_of fd info"
    and "\<exists>q. fd (2 * info_period info) (info_dt info) = Finite q \<and> samples_of fd info = \<lceil>q\<rceil> + 1"
    by simp_all
  have "read_time_shift fs = read_time_shift fs2"
    "additional_time_shift fs = additional_time_shift fs2"
    by (simp_all add: fs find_hypocenter_def resample_sliprate_def lp_sliprate_def)
  moreover have "read_time_shift fs2 = read_time_shift fs0"
    "additional_time_shift fs2 = of_int (samples_of fd info) * info_dt info"
    by (subst p(5), simp)+
  ultimately show "read_time_shift fs = read_time_shift fs0"
    and "additional_time_shift fs = of_int (samples_of fd info) * info_dt info" by simp_all
qed

lemma prepared_time_shift:
  assumes "from_usgs_param_file lib body 10000 (1 / 10) 1 = Some fs0"
      and "parse_and_resample_finite_source fd lib body info = Inr fs"
  shows "time_shift fs =
           read_time_shift fs0
             (map (\<lambda>t. t + additional_time_shift fs) (map ps_time_shift (pointsources fs0)))"
  by (simp add: time_shift_def prepared_shifts(1,2) [OF assms] prepared_pointsources [OF assms]
      comp_def)

lemma time_window_values:
  assumes "time_window fd info a fs t = Inr (tofs, earliest, latest)"
  shows "tofs = t - time_shift fs" and "earliest = tofs + additional_time_shift fs"
  using assms
  by (auto simp: time_window_def Let_def split: sum.splits bool.splits)

lemma parse_Inr_window:
  assumes "snd (parse_time_settings fd info a fs) = Inr w"
  shows "time_window fd info a fs (resolved_origin a) = Inr w"
proof (cases "time_window fd info a fs (resolved_origin a)")
  case (Inl e)
  with assms show ?thesis by (simp add: parse_time_settings_no_window)
next
  case (Inr w')
  obtain t e l where w': "w' = (t, e, l)" by (cases w')
  from assms Inr w' show ?thesis
    by (simp add: parse_time_settings_window Let_def split: option.splits)
qed

text \<open>
  Claim C2, amended. For a source parsed as \<open>fs0\<close> and prepared as \<open>fs\<close>, a successful
  \<^verbatim>\<open>parse_time_settings\<close> returns the time of the first sample as the origin time
  minus the time shift of the prepared model, which is read off the point sources after
  line 99 has added the padding shift to each of them; and the earliest start as the
  time of the first sample plus \<^verbatim>\<open>additional_time_shift\<close>, which is the number of
  padding samples of the preparation times the sample interval of the database. When
  the time shift of the model follows a common shift of its point sources, the time of
  the first sample is the origin time minus the sum of the time shift before the padding
  and the padding shift, and the earliest start is the origin time minus the time shift
  before the padding.
\<close>

theorem window_round_trip:
  assumes "from_usgs_param_file lib body 10000 (1 / 10) 1 = Some fs0"
      and "parse_and_resample_finite_source fd lib body info = Inr fs"
      and "snd (parse_time_settings fd info a fs) = Inr (tofs, earliest, latest)"
  shows "tofs = resolved_origin a - time_shift fs
         \<and> time_shift fs =
             read_time_shift fs0
               (map (\<lambda>t. t + additional_time_shift fs) (map ps_time_shift (pointsources fs0)))
         \<and> earliest = tofs + additional_time_shift fs
         \<and> (\<exists>q. fd (2 * info_period info) (info_dt info) = Finite q
               \<and> padding_samples fd info = Inr (\<lceil>q\<rceil> + 1)
               \<and> additional_time_shift fs = of_int (\<lceil>q\<rceil> + 1) * info_dt info)
         \<and> ((\<forall>s. read_time_shift fs0 (map (\<lambda>t. t + s) (map ps_time_shift (pointsources fs0)))
                    = read_time_shift fs0 (map ps_time_shift (pointsources fs0)) + s) \<longrightarrow>
               time_shift fs = time_shift fs0 + additional_time_shift fs
               \<and> tofs = resolved_origin a - (time_shift fs0 + additional_time_shift fs)
               \<and> earliest = resolved_origin a - time_shift fs0)"
proof -
  note w = time_window_values [OF parse_Inr_window [OF assms(3)]]
  note s = prepared_shifts [OF assms(1,2)]
  note t = prepared_time_shift [OF assms(1,2)]
  from s(5) obtain q where q: "fd (2 * info_period info) (info_dt info) = Finite q"
    "samples_of fd info = \<lceil>q\<rceil> + 1"
    by blast
  have c4: "\<exists>q. fd (2 * info_period info) (info_dt info) = Finite q
               \<and> padding_samples fd info = Inr (\<lceil>q\<rceil> + 1)
               \<and> additional_time_shift fs = of_int (\<lceil>q\<rceil> + 1) * info_dt info"
    using q s(2,3) by (intro exI [of _ q]) (simp add: padding_samples_def)
  have c5: "(\<forall>s. read_time_shift fs0 (map (\<lambda>t. t + s) (map ps_time_shift (pointsources fs0)))
                    = read_time_shift fs0 (map ps_time_shift (pointsources fs0)) + s) \<longrightarrow>
               time_shift fs = time_shift fs0 + additional_time_shift fs
               \<and> tofs = resolved_origin a - (time_shift fs0 + additional_time_shift fs)
               \<and> earliest = resolved_origin a - time_shift fs0"
  proof
    assume "\<forall>s. read_time_shift fs0 (map (\<lambda>t. t + s) (map ps_time_shift (pointsources fs0)))
                    = read_time_shift fs0 (map ps_time_shift (pointsources fs0)) + s"
    with t have "time_shift fs = time_shift fs0 + additional_time_shift fs"
      by (simp add: time_shift_def [of fs0])
    with w show "time_shift fs = time_shift fs0 + additional_time_shift fs
               \<and> tofs = resolved_origin a - (time_shift fs0 + additional_time_shift fs)
               \<and> earliest = resolved_origin a - time_shift fs0"
      by simp
  qed
  show ?thesis
    by (intro conjI w t c4 c5)
qed

text \<open>
  Claim C6. Whenever the preparation of a parsed source \<open>fs0\<close> succeeds, the quotient
  \<open>2 * period / dt\<close> of line 94, as the float division of the runtime returns it, is a
  finite number \<open>q\<close> and the number of padding samples is \<open>ceil(q) + 1\<close>; the padding
  step puts that many zeros before and after every slip-rate series, adds
  \<open>samples * dt\<close> to the time shift of every point source and records it as
  \<^verbatim>\<open>additional_time_shift\<close>; every slip-rate series of the prepared source is the
  padded series, filtered and resampled with \<open>nsamp = npts + 2 * samples\<close>; and, for a
  resampler that returns as many samples as it is asked for, every slip-rate series of
  the prepared source has \<open>npts + 2 * samples\<close> samples.
\<close>

theorem preparation_padding:
  assumes "from_usgs_param_file lib body 10000 (1 / 10) 1 = Some fs0"
      and "parse_and_resample_finite_source fd lib body info = Inr fs"
      and "\<forall>d n xs. length (resample_series lib d n xs) = nat n"
  shows "\<exists>q samples fs2.
           fd (2 * info_period info) (info_dt info) = Finite q
           \<and> samples = \<lceil>q\<rceil> + 1
           \<and> 0 \<le> samples
           \<and> pad_finite_source fd info fs0 = Inr (samples, fs2)
           \<and> pointsources fs2 =
               map (\<lambda>ps. ps\<lparr>sliprate := replicate (nat samples) 0 @ sliprate ps
                                          @ replicate (nat samples) 0,
                             ps_time_shift := ps_time_shift ps + of_int samples * info_dt info\<rparr>)
                 (pointsources fs0)
           \<and> additional_time_shift fs2 = of_int samples * info_dt info
           \<and> additional_time_shift fs = of_int samples * info_dt info
           \<and> pointsources fs =
               map (\<lambda>ps. ps\<lparr>sliprate :=
                      resample_series lib (info_dt info) (info_npts info + 2 * samples)
                        (lp_series lib (1 / info_period info) True
                          (replicate (nat samples) 0 @ sliprate ps @ replicate (nat samples) 0)),
                      ps_time_shift := ps_time_shift ps + of_int samples * info_dt info\<rparr>)
                 (pointsources fs0)
           \<and> (\<forall>ps \<in> set (pointsources fs).
                 length (sliprate ps) = nat (info_npts info + 2 * samples))"
proof -
  let ?n = "samples_of fd info"
  from prepare_Inr [OF assms(1,2)] obtain fs2 where
    pad: "pad_finite_source fd info fs0 = Inr (?n, fs2)"
    by blast
  note p = pad_finite_source_Inr [OF pad]
  from p(2) obtain q where q: "fd (2 * info_period info) (info_dt info) = Finite q"
    "?n = \<lceil>q\<rceil> + 1"
    by blast
  have a: "pointsources fs2 =
               map (\<lambda>ps. ps\<lparr>sliprate := replicate (nat ?n) 0 @ sliprate ps @ replicate (nat ?n) 0,
                             ps_time_shift := ps_time_shift ps + of_int ?n * info_dt info\<rparr>)
                 (pointsources fs0)"
    by (subst p(5)) (simp add: pad_pointsource_def)
  have b: "additional_time_shift fs2 = of_int ?n * info_dt info"
    by (subst p(5)) simp
  note ps = prepared_pointsources [OF assms(1,2)]
  have d: "\<forall>ps \<in> set (pointsources fs). length (sliprate ps) = nat (info_npts info + 2 * ?n)"
    using assms(3) by (auto simp: ps)
  have "fd (2 * info_period info) (info_dt info) = Finite q
           \<and> ?n = \<lceil>q\<rceil> + 1
           \<and> 0 \<le> ?n
           \<and> pad_finite_source fd info fs0 = Inr (?n, fs2)
           \<and> pointsources fs2 =
               map (\<lambda>ps. ps\<lparr>sliprate := replicate (nat ?n) 0 @ sliprate ps @ replicate (nat ?n) 0,
                             ps_time_shift := ps_time_shift ps + of_int ?n * info_dt info\<rparr>)
                 (pointsources fs0)
           \<and> additional_time_shift fs2 = of_int ?n * info_dt info
           \<and> additional_time_shift fs = of_int ?n * info_dt info
           \<and> pointsources fs =
               map (\<lambda>ps. ps\<lparr>sliprate :=
                      resample_series lib (info_dt info) (info_npts info + 2 * ?n)
                        (lp_series lib (1 / info_period info) True
                          (replicate (nat ?n) 0 @ sliprate ps @ replicate (nat ?n) 0)),
                      ps_time_shift := ps_time_shift ps + of_int ?n * info_dt info\<rparr>)
                 (pointsources fs0)
           \<and> (\<forall>ps \<in> set (pointsources fs).
                 length (sliprate ps) = nat (info_npts info + 2 * ?n))"
    by (intro conjI q p(4) pad a b prepared_shifts(2) [OF assms(1,2)] ps d)
  then show ?thesis by blast
qed

subsection \<open>One pass of the loop\<close>

lemma step_closed_before:
  "closed_before v \<Longrightarrow> visit_step sv a tofs mn mx h v = (finish (flush h), Returned)"
  by (simp add: visit_step_def)

lemma step_no_window:
  "\<not> closed_before v \<Longrightarrow>
   get_phase_relative_times sv a (source h) (visited v) mn mx = None \<Longrightarrow>
   visit_step sv a tofs mn mx h v = (h, Continue)"
  by (simp add: visit_step_def)

lemma get_finite_source_failure:
  "get_seismograms_finite_source sv fs rc comps un d kw = None \<Longrightarrow>
   get_finite_source sv fs rc comps un d kw st et tofs fmt lbl
     = (fs, RespException (HTTPError 400 extract_msg))"
  by (simp add: get_finite_source_def)

lemma get_finite_source_success:
  "get_seismograms_finite_source sv fs rc comps un d kw = Some stream \<Longrightarrow>
   fst (get_finite_source sv fs rc comps un d kw st et tofs fmt lbl)
     = fs\<lparr>origin_time := Some (tofs + additional_time_shift fs)\<rparr>"
  by (simp add: get_finite_source_def Let_def)

lemma get_finite_source_source:
  "get_finite_source sv fs rc comps un d kw st et tofs fmt lbl = (fs', resp) \<Longrightarrow>
   fs' = fs \<or> fs' = fs\<lparr>origin_time := Some (tofs + additional_time_shift fs)\<rparr>"
  by (auto simp add: get_finite_source_def Let_def split: option.splits)

lemma get_finite_source_no_exception:
  "get_finite_source sv fs rc comps un d kw st et tofs fmt lbl = (fs', resp) \<Longrightarrow>
   (\<forall>e. resp \<noteq> RespException e) \<Longrightarrow>
   fs' = fs\<lparr>origin_time := Some (tofs + additional_time_shift fs)\<rparr>"
  by (auto simp add: get_finite_source_def Let_def split: option.splits)

lemma step_closed_after:
  assumes "\<not> closed_before v"
      and "get_phase_relative_times sv a (source h) (visited v) mn mx = Some (st, et)"
      and "closed_after v"
  shows "\<exists>fs'. visit_step sv a tofs mn mx h v
           = (finish (flush (h\<lparr>source := fs', dispatched := dispatched h @ [visited v]\<rparr>)),
              Returned)"
  using assms by (auto simp add: visit_step_def Let_def split: prod.splits)

lemma step_failure:
  assumes "\<not> closed_before v"
      and "get_phase_relative_times sv a (source h) (visited v) mn mx = Some (st, et)"
      and "get_seismograms_finite_source sv (source h) (visited v) (components a) (units a)
             (dt a) (kernelwidth a) = None"
      and "\<not> closed_after v"
  shows "visit_step sv a tofs mn mx h v
           = (h\<lparr>dispatched := dispatched h @ [visited v]\<rparr>, Raise (HTTPError 400 extract_msg))"
  using assms by (simp add: visit_step_def get_finite_source_failure)

lemma step_continue:
  assumes "visit_step sv a tofs mn mx h v = (h1, Continue)"
  shows "\<not> closed_before v"
    and "count h1 = count h \<or> count h1 = count h + 1"
    and "count h1 = count h \<Longrightarrow> h1 = h"
    and "count h1 = count h \<Longrightarrow>
           get_phase_relative_times sv a (source h) (visited v) mn mx = None"
    and "count h1 = count h + 1 \<Longrightarrow>
           origin_time (source h1) = Some (tofs + additional_time_shift (source h))"
    and "additional_time_shift (source h1) = additional_time_shift (source h)"
  using assms
  by (auto simp: visit_step_def Let_def flush_def drain_def writestr_all_def write_data_def
      split: if_splits option.splits prod.splits response.splits
      dest!: get_finite_source_no_exception)

lemma step_exit:
  assumes "visit_step sv a tofs mn mx h v = (h1, x)" and "x \<noteq> Continue"
  shows "written h1 = written h" and "count h1 = count h"
    and "x = Returned \<Longrightarrow> finished h1 \<and> flushed h1 = length (written h1)"
    and "x = Returned \<Longrightarrow> closed_before v \<and> dispatched h1 = dispatched h
            \<or> closed_after v \<and> dispatched h1 = dispatched h @ [visited v]"
    and "x = Raise e \<Longrightarrow> dispatched h1 = dispatched h @ [visited v]"
  using assms
  by (auto simp: visit_step_def Let_def flush_def finish_def
      split: if_splits option.splits prod.splits response.splits)

lemma step_source:
  assumes "visit_step sv a tofs mn mx h v = (h1, x)"
  shows "source h1 = source h
         \<or> source h1 = (source h)\<lparr>origin_time := Some (tofs + additional_time_shift (source h))\<rparr>"
  using assms
  by (auto simp: visit_step_def Let_def flush_def finish_def drain_def writestr_all_def
      write_data_def
      split: if_splits option.splits prod.splits response.splits
      dest!: get_finite_source_source)

subsection \<open>The loop and the zero-result error\<close>

lemma step_dispatched:
  assumes "visit_step sv a tofs mn mx h v = (h1, x)"
  shows "length (dispatched h) \<le> length (dispatched h1)"
    and "x = Raise e \<Longrightarrow> length (dispatched h) < length (dispatched h1)"
  using assms
  by (auto simp: visit_step_def Let_def flush_def finish_def drain_def writestr_all_def
      write_data_def
      split: if_splits option.splits prod.splits response.splits)

lemma loop_Cons_continue:
  "visit_step sv a tofs mn mx h v = (h1, Continue) \<Longrightarrow>
   receiver_loop sv a tofs mn mx h (v # vs) = receiver_loop sv a tofs mn mx h1 vs"
  by simp

lemma loop_Cons_exit:
  "visit_step sv a tofs mn mx h v = (h1, x) \<Longrightarrow> x \<noteq> Continue \<Longrightarrow>
   receiver_loop sv a tofs mn mx h (v # vs) = (h1, x)"
  by (cases x) simp_all

lemma loop_append:
  "receiver_loop sv a tofs mn mx h pre = (hk, Continue) \<Longrightarrow>
   receiver_loop sv a tofs mn mx h (pre @ rest) = receiver_loop sv a tofs mn mx hk rest"
proof (induction pre arbitrary: h)
  case Nil
  then show ?case by simp
next
  case (Cons v pre)
  obtain h1 x where s: "visit_step sv a tofs mn mx h v = (h1, x)"
    by (cases "visit_step sv a tofs mn mx h v")
  show ?case
  proof (cases x)
    case Continue
    with s Cons.prems have "receiver_loop sv a tofs mn mx h1 pre = (hk, Continue)" by simp
    from Cons.IH [OF this] s Continue show ?thesis by simp
  next
    case Returned
    with s Cons.prems show ?thesis by simp
  next
    case (Raise e)
    with s Cons.prems show ?thesis by simp
  qed
qed

lemma loop_count_mono:
  "receiver_loop sv a tofs mn mx h vs = (h', x) \<Longrightarrow> count h \<le> count h'"
proof (induction vs arbitrary: h)
  case Nil
  then show ?case by simp
next
  case (Cons v vs)
  obtain h1 y where s: "visit_step sv a tofs mn mx h v = (h1, y)"
    by (cases "visit_step sv a tofs mn mx h v")
  show ?case
  proof (cases "y = Continue")
    case True
    with s Cons.prems have "receiver_loop sv a tofs mn mx h1 vs = (h', x)" by simp
    from Cons.IH [OF this] step_continue(2) [of sv a tofs mn mx h v h1] s True
    show ?thesis by auto
  next
    case False
    from loop_Cons_exit [OF s False, of vs] Cons.prems step_exit(2) [OF s False]
    show ?thesis by simp
  qed
qed

lemma loop_unchanged:
  "receiver_loop sv a tofs mn mx h vs = (h', Continue) \<Longrightarrow> count h' = count h \<Longrightarrow> h' = h"
proof (induction vs arbitrary: h)
  case Nil
  then show ?case by simp
next
  case (Cons v vs)
  obtain h1 y where s: "visit_step sv a tofs mn mx h v = (h1, y)"
    by (cases "visit_step sv a tofs mn mx h v")
  show ?case
  proof (cases "y = Continue")
    case True
    with s Cons.prems have l: "receiver_loop sv a tofs mn mx h1 vs = (h', Continue)" by simp
    from loop_count_mono [OF l] step_continue(2) [of sv a tofs mn mx h v h1] s True Cons.prems(2)
    have c: "count h1 = count h" by auto
    with step_continue(3) [of sv a tofs mn mx h v h1] s True have "h1 = h" by simp
    with Cons.IH [OF l] c Cons.prems(2) show ?thesis by simp
  next
    case False
    from loop_Cons_exit [OF s False, of vs] Cons.prems(1) have "y = Continue"
      by (simp del: receiver_loop.simps)
    with False show ?thesis by simp
  qed
qed

lemma loop_all_skipped:
  "\<forall>v \<in> set vs. \<not> closed_before v
      \<and> get_phase_relative_times sv a (source h) (visited v) mn mx = None \<Longrightarrow>
   receiver_loop sv a tofs mn mx h vs = (h, Continue)"
  by (induction vs) (simp_all add: step_no_window)

lemma loop_raise_dispatched:
  "receiver_loop sv a tofs mn mx h vs = (h', x) \<Longrightarrow>
   length (dispatched h) \<le> length (dispatched h')
   \<and> (x = Raise e \<longrightarrow> length (dispatched h) < length (dispatched h'))"
proof (induction vs arbitrary: h)
  case Nil
  then show ?case by simp
next
  case (Cons v vs)
  obtain h1 y where s: "visit_step sv a tofs mn mx h v = (h1, y)"
    by (cases "visit_step sv a tofs mn mx h v")
  show ?case
  proof (cases "y = Continue")
    case True
    with s Cons.prems have l: "receiver_loop sv a tofs mn mx h1 vs = (h', x)" by simp
    from Cons.IH [OF l] step_dispatched(1) [OF s] show ?thesis by auto
  next
    case False
    from loop_Cons_exit [OF s False, of vs] Cons.prems have "h' = h1" "x = y" by simp_all
    with step_dispatched [OF s] show ?thesis by auto
  qed
qed

lemma loop_returned:
  "receiver_loop sv a tofs mn mx h vs = (h', Returned) \<Longrightarrow>
   finished h' \<and> flushed h' = length (written h')"
proof (induction vs arbitrary: h)
  case Nil
  then show ?case by simp
next
  case (Cons v vs)
  obtain h1 y where s: "visit_step sv a tofs mn mx h v = (h1, y)"
    by (cases "visit_step sv a tofs mn mx h v")
  show ?case
  proof (cases "y = Continue")
    case True
    with s Cons.prems have l: "receiver_loop sv a tofs mn mx h1 vs = (h', Returned)" by simp
    from Cons.IH [OF l] show ?thesis .
  next
    case False
    from loop_Cons_exit [OF s False, of vs] Cons.prems have "h' = h1" "y = Returned" by simp_all
    with step_exit(3) [OF s False] show ?thesis by simp
  qed
qed

lemma finalize_raised:
  "finalize a h = (h2, Raised e) \<Longrightarrow> count h = 0 \<and> e = HTTPError 400 no_seismograms_msg \<and> h2 = h"
  by (auto simp: finalize_def Let_def split: if_splits)

lemma finalize_zero:
  "count h = 0 \<Longrightarrow> finalize a h = (h, Raised (HTTPError 400 no_seismograms_msg))"
  by (simp add: finalize_def)

lemma post_unfold:
  assumes "parse_and_resample_finite_source fd lib body info = Inr fs"
      and "parse_time_settings fd info a0 fs = (a, Inr (tofs, mn, mx))"
  shows "post fd lib sv info a0 body vs =
           (case receiver_loop sv a tofs mn mx (init_handler fs) vs of
              (h, Returned) \<Rightarrow> (Some h, ConnectionClosed)
            | (h, Raise e) \<Rightarrow> (Some h, Raised e)
            | (h, Continue) \<Rightarrow> (case finalize a h of (h', r) \<Rightarrow> (Some h', r)))"
  using assms by (simp add: post_def)

text \<open>
  Claim C7. A receiver without a window is passed over: the loop goes on with the same
  state, so nothing is raised and the counter is not incremented. When the loop runs to
  its end with the counter at zero, the state is still the initial one, nothing has been
  written, and the handler raises the 400 error of line 345; in particular this is what
  \<^verbatim>\<open>post\<close> does when no receiver has a window. The code after the loop raises only
  for a zero counter, and the loop itself raises only after it has dispatched an
  extraction.
\<close>

theorem no_window_no_results:
  "(\<not> closed_before v \<and> get_phase_relative_times sv a (source h) (visited v) mn mx = None \<longrightarrow>
      receiver_loop sv a tofs mn mx h (v # vs) = receiver_loop sv a tofs mn mx h vs)
   \<and> (receiver_loop sv a tofs mn mx (init_handler fs) vs = (h', Continue) \<and> count h' = 0 \<longrightarrow>
        h' = init_handler fs \<and> written h' = []
        \<and> finalize a h' = (h', Raised (HTTPError 400 no_seismograms_msg)))
   \<and> (parse_and_resample_finite_source fd lib body info = Inr fs
        \<and> parse_time_settings fd info a0 fs = (a, Inr (tofs, mn, mx))
        \<and> (\<forall>w \<in> set vs. \<not> closed_before w
              \<and> get_phase_relative_times sv a fs (visited w) mn mx = None) \<longrightarrow>
        post fd lib sv info a0 body vs
          = (Some (init_handler fs), Raised (HTTPError 400 no_seismograms_msg))
        \<and> written (init_handler fs) = [])
   \<and> (finalize a h = (h2, Raised e) \<longrightarrow> count h = 0 \<and> e = HTTPError 400 no_seismograms_msg)
   \<and> (receiver_loop sv a tofs mn mx h vs = (h3, Raise e3) \<longrightarrow>
        length (dispatched h) < length (dispatched h3))"
proof -
  have c1: "\<not> closed_before v \<and> get_phase_relative_times sv a (source h) (visited v) mn mx = None \<longrightarrow>
      receiver_loop sv a tofs mn mx h (v # vs) = receiver_loop sv a tofs mn mx h vs"
    by (simp add: step_no_window)
  have c2: "receiver_loop sv a tofs mn mx (init_handler fs) vs = (h', Continue) \<and> count h' = 0 \<longrightarrow>
        h' = init_handler fs \<and> written h' = []
        \<and> finalize a h' = (h', Raised (HTTPError 400 no_seismograms_msg))"
  proof (intro impI, elim conjE)
    assume l: "receiver_loop sv a tofs mn mx (init_handler fs) vs = (h', Continue)"
      and c: "count h' = 0"
    have "count (init_handler fs) = 0" by (simp add: init_handler_def)
    with loop_unchanged [OF l] c have e: "h' = init_handler fs" by simp
    moreover have "written (init_handler fs) = []" by (simp add: init_handler_def)
    ultimately show "h' = init_handler fs \<and> written h' = []
        \<and> finalize a h' = (h', Raised (HTTPError 400 no_seismograms_msg))"
      using c by (simp add: finalize_zero)
  qed
  have c3: "parse_and_resample_finite_source fd lib body info = Inr fs
        \<and> parse_time_settings fd info a0 fs = (a, Inr (tofs, mn, mx))
        \<and> (\<forall>w \<in> set vs. \<not> closed_before w
              \<and> get_phase_relative_times sv a fs (visited w) mn mx = None) \<longrightarrow>
        post fd lib sv info a0 body vs
          = (Some (init_handler fs), Raised (HTTPError 400 no_seismograms_msg))
        \<and> written (init_handler fs) = []"
  proof (intro impI, elim conjE)
    assume p: "parse_and_resample_finite_source fd lib body info = Inr fs"
      and t: "parse_time_settings fd info a0 fs = (a, Inr (tofs, mn, mx))"
      and s: "\<forall>w \<in> set vs. \<not> closed_before w
              \<and> get_phase_relative_times sv a fs (visited w) mn mx = None"
    have src: "source (init_handler fs) = fs" by (simp add: init_handler_def)
    from s have "receiver_loop sv a tofs mn mx (init_handler fs) vs = (init_handler fs, Continue)"
      by (intro loop_all_skipped) (simp add: src)
    moreover have "count (init_handler fs) = 0" "written (init_handler fs) = []"
      by (simp_all add: init_handler_def)
    ultimately show "post fd lib sv info a0 body vs
          = (Some (init_handler fs), Raised (HTTPError 400 no_seismograms_msg))
        \<and> written (init_handler fs) = []"
      by (simp add: post_unfold [OF p t] finalize_zero)
  qed
  have c4: "finalize a h = (h2, Raised e) \<longrightarrow> count h = 0 \<and> e = HTTPError 400 no_seismograms_msg"
    using finalize_raised by blast
  have c5: "receiver_loop sv a tofs mn mx h vs = (h3, Raise e3) \<longrightarrow>
        length (dispatched h) < length (dispatched h3)"
    using loop_raise_dispatched by blast
  show ?thesis
    by (intro conjI c1 c2 c3 c4 c5)
qed

subsection \<open>Cancellation, failure and the shared source\<close>

lemma finish_flush_fields:
  "written (finish (flush h)) = written h"
  "flushed (finish (flush h)) = length (written h)"
  "finished (finish (flush h))"
  "dispatched (finish (flush h)) = dispatched h"
  "count (finish (flush h)) = count h"
  by (simp_all add: finish_def flush_def)

lemma step_written:
  assumes "visit_step sv a tofs mn mx h v = (h1, Continue)" and "zip_buf h = []"
  shows "zip_buf h1 = []"
    and "written h1 @ receiver_entries sv a tofs mn mx (source h1) vs
           = written h @ receiver_entries sv a tofs mn mx (source h) (v # vs)"
  using assms
  by (auto simp: visit_step_def Let_def flush_def drain_def writestr_all_def write_data_def
      response_chunks_def
      split: if_splits option.splits prod.splits response.splits)

lemma loop_written:
  "receiver_loop sv a tofs mn mx h pre = (hk, Continue) \<Longrightarrow> zip_buf h = [] \<Longrightarrow>
   zip_buf hk = [] \<and> written hk = written h @ receiver_entries sv a tofs mn mx (source h) pre"
proof (induction pre arbitrary: h)
  case Nil
  then show ?case by simp
next
  case (Cons v pre)
  obtain h1 y where s: "visit_step sv a tofs mn mx h v = (h1, y)"
    by (cases "visit_step sv a tofs mn mx h v")
  show ?case
  proof (cases "y = Continue")
    case True
    with s Cons.prems(1) have l: "receiver_loop sv a tofs mn mx h1 pre = (hk, Continue)"
      by simp
    from s True have c: "visit_step sv a tofs mn mx h v = (h1, Continue)" by simp
    note w = step_written [OF c Cons.prems(2)]
    from Cons.IH [OF l w(1)] w(2) [of pre] show ?thesis by simp
  next
    case False
    from loop_Cons_exit [OF s False, of pre] Cons.prems(1) have "y = Continue"
      by (simp del: receiver_loop.simps)
    with False show ?thesis by simp
  qed
qed

text \<open>
  Claim C8. The connection is looked at before the extraction is dispatched and after
  it has returned. When it is found closed, at either place, the handler flushes and
  finishes the response and returns: what was written stays as it was, no error is
  raised, and no later receiver is visited. What the first receivers \<open>pre\<close> have written
  when the loop has passed them is the sequence of their entries, in their order: the
  archive entries or the payload of every receiver that has a window. So when the
  connection is found closed at the receiver after \<open>pre\<close>, at either check, the
  response of \<^verbatim>\<open>post\<close> holds the entries of \<open>pre\<close> and nothing else, all of it flushed,
  and \<^verbatim>\<open>post\<close> ends without an error.
\<close>

theorem cancellation_is_graceful:
  "(closed_before v \<longrightarrow>
      receiver_loop sv a tofs mn mx h (v # vs) = (finish (flush h), Returned)
      \<and> written (finish (flush h)) = written h
      \<and> flushed (finish (flush h)) = length (written h)
      \<and> finished (finish (flush h))
      \<and> dispatched (finish (flush h)) = dispatched h)
   \<and> (\<not> closed_before v
        \<and> get_phase_relative_times sv a (source h) (visited v) mn mx = Some (st, et)
        \<and> closed_after v \<longrightarrow>
      (\<exists>h1. receiver_loop sv a tofs mn mx h (v # vs) = (h1, Returned)
            \<and> written h1 = written h \<and> flushed h1 = length (written h) \<and> finished h1
            \<and> count h1 = count h \<and> dispatched h1 = dispatched h @ [visited v]))
   \<and> (receiver_loop sv a tofs mn mx h pre = (hk, Continue) \<and> zip_buf h = [] \<longrightarrow>
        written hk = written h @ receiver_entries sv a tofs mn mx (source h) pre)
   \<and> (receiver_loop sv a tofs mn mx h pre = (hk, Continue) \<and> closed_before w \<longrightarrow>
        receiver_loop sv a tofs mn mx h (pre @ w # rest) = (finish (flush hk), Returned)
        \<and> written (finish (flush hk)) = written hk
        \<and> dispatched (finish (flush hk)) = dispatched hk)
   \<and> (parse_and_resample_finite_source fd lib body info = Inr fs
        \<and> parse_time_settings fd info a0 fs = (a, Inr (tofs, mn, mx))
        \<and> receiver_loop sv a tofs mn mx (init_handler fs) pre = (hk', Continue)
        \<and> closed_before w \<longrightarrow>
        post fd lib sv info a0 body (pre @ w # rest) = (Some (finish (flush hk')), ConnectionClosed)
        \<and> written (finish (flush hk')) = receiver_entries sv a tofs mn mx fs pre
        \<and> flushed (finish (flush hk')) = length (receiver_entries sv a tofs mn mx fs pre)
        \<and> finished (finish (flush hk')))
   \<and> (parse_and_resample_finite_source fd lib body info = Inr fs
        \<and> parse_time_settings fd info a0 fs = (a, Inr (tofs, mn, mx))
        \<and> receiver_loop sv a tofs mn mx (init_handler fs) pre = (hk', Continue)
        \<and> \<not> closed_before w
        \<and> get_phase_relative_times sv a (source hk') (visited w) mn mx = Some (st, et)
        \<and> closed_after w \<longrightarrow>
        (\<exists>h1. post fd lib sv info a0 body (pre @ w # rest) = (Some h1, ConnectionClosed)
              \<and> written h1 = receiver_entries sv a tofs mn mx fs pre
              \<and> flushed h1 = length (receiver_entries sv a tofs mn mx fs pre)
              \<and> finished h1))"
proof -
  have c1: "closed_before v \<longrightarrow>
      receiver_loop sv a tofs mn mx h (v # vs) = (finish (flush h), Returned)
      \<and> written (finish (flush h)) = written h
      \<and> flushed (finish (flush h)) = length (written h)
      \<and> finished (finish (flush h))
      \<and> dispatched (finish (flush h)) = dispatched h"
    by (simp add: step_closed_before finish_flush_fields)
  have after: "\<exists>h1. receiver_loop sv a tofs mn mx h0 (u # us) = (h1, Returned)
            \<and> written h1 = written h0 \<and> flushed h1 = length (written h0) \<and> finished h1
            \<and> count h1 = count h0 \<and> dispatched h1 = dispatched h0 @ [visited u]"
    if "\<not> closed_before u"
      and "get_phase_relative_times sv a (source h0) (visited u) mn mx = Some (st, et)"
      and "closed_after u" for h0 u us
  proof -
    from step_closed_after [OF that, of tofs] obtain fs' where
      s: "visit_step sv a tofs mn mx h0 u
           = (finish (flush (h0\<lparr>source := fs', dispatched := dispatched h0 @ [visited u]\<rparr>)),
              Returned)"
      by blast
    show ?thesis
      by (rule exI [of _ "finish (flush (h0\<lparr>source := fs', dispatched := dispatched h0 @ [visited u]\<rparr>))"])
         (simp add: s finish_flush_fields)
  qed
  have c2: "\<not> closed_before v
        \<and> get_phase_relative_times sv a (source h) (visited v) mn mx = Some (st, et)
        \<and> closed_after v \<longrightarrow>
      (\<exists>h1. receiver_loop sv a tofs mn mx h (v # vs) = (h1, Returned)
            \<and> written h1 = written h \<and> flushed h1 = length (written h) \<and> finished h1
            \<and> count h1 = count h \<and> dispatched h1 = dispatched h @ [visited v])"
    using after by blast
  have c3: "receiver_loop sv a tofs mn mx h pre = (hk, Continue) \<and> zip_buf h = [] \<longrightarrow>
        written hk = written h @ receiver_entries sv a tofs mn mx (source h) pre"
    using loop_written by blast
  have pre: "receiver_loop sv a tofs mn mx h0 (pre @ w # rest) = (finish (flush hx), Returned)"
    if "receiver_loop sv a tofs mn mx h0 pre = (hx, Continue)" "closed_before w" for h0 hx
    using that by (simp add: loop_append step_closed_before)
  have c4: "receiver_loop sv a tofs mn mx h pre = (hk, Continue) \<and> closed_before w \<longrightarrow>
        receiver_loop sv a tofs mn mx h (pre @ w # rest) = (finish (flush hk), Returned)
        \<and> written (finish (flush hk)) = written hk
        \<and> dispatched (finish (flush hk)) = dispatched hk"
    using pre by (simp add: finish_flush_fields)
  have init: "written hx = receiver_entries sv a tofs mn mx fs pre"
    if "receiver_loop sv a tofs mn mx (init_handler fs) pre = (hx, Continue)" for hx
    using loop_written [OF that] by (simp add: init_handler_def)
  have c5: "parse_and_resample_finite_source fd lib body info = Inr fs
        \<and> parse_time_settings fd info a0 fs = (a, Inr (tofs, mn, mx))
        \<and> receiver_loop sv a tofs mn mx (init_handler fs) pre = (hk', Continue)
        \<and> closed_before w \<longrightarrow>
        post fd lib sv info a0 body (pre @ w # rest) = (Some (finish (flush hk')), ConnectionClosed)
        \<and> written (finish (flush hk')) = receiver_entries sv a tofs mn mx fs pre
        \<and> flushed (finish (flush hk')) = length (receiver_entries sv a tofs mn mx fs pre)
        \<and> finished (finish (flush hk'))"
  proof (intro impI, elim conjE)
    assume p: "parse_and_resample_finite_source fd lib body info = Inr fs"
      and t: "parse_time_settings fd info a0 fs = (a, Inr (tofs, mn, mx))"
      and l: "receiver_loop sv a tofs mn mx (init_handler fs) pre = (hk', Continue)"
      and c: "closed_before w"
    show "post fd lib sv info a0 body (pre @ w # rest) = (Some (finish (flush hk')), ConnectionClosed)
        \<and> written (finish (flush hk')) = receiver_entries sv a tofs mn mx fs pre
        \<and> flushed (finish (flush hk')) = length (receiver_entries sv a tofs mn mx fs pre)
        \<and> finished (finish (flush hk'))"
      by (simp add: post_unfold [OF p t] pre [OF l c] finish_flush_fields init [OF l])
  qed
  have c6: "parse_and_resample_finite_source fd lib body info = Inr fs
        \<and> parse_time_settings fd info a0 fs = (a, Inr (tofs, mn, mx))
        \<and> receiver_loop sv a tofs mn mx (init_handler fs) pre = (hk', Continue)
        \<and> \<not> closed_before w
        \<and> get_phase_relative_times sv a (source hk') (visited w) mn mx = Some (st, et)
        \<and> closed_after w \<longrightarrow>
        (\<exists>h1. post fd lib sv info a0 body (pre @ w # rest) = (Some h1, ConnectionClosed)
              \<and> written h1 = receiver_entries sv a tofs mn mx fs pre
              \<and> flushed h1 = length (receiver_entries sv a tofs mn mx fs pre)
              \<and> finished h1)"
  proof (intro impI, elim conjE)
    assume p: "parse_and_resample_finite_source fd lib body info = Inr fs"
      and t: "parse_time_settings fd info a0 fs = (a, Inr (tofs, mn, mx))"
      and l: "receiver_loop sv a tofs mn mx (init_handler fs) pre = (hk', Continue)"
      and c: "\<not> closed_before w"
        "get_phase_relative_times sv a (source hk') (visited w) mn mx = Some (st, et)"
        "closed_after w"
    from after [OF c, of rest] obtain h1 where
      h1: "receiver_loop sv a tofs mn mx hk' (w # rest) = (h1, Returned)"
        "written h1 = written hk'" "flushed h1 = length (written hk')" "finished h1"
      by blast
    from loop_append [OF l, of "w # rest"] h1(1)
    have "receiver_loop sv a tofs mn mx (init_handler fs) (pre @ w # rest) = (h1, Returned)"
      by simp
    then have "post fd lib sv info a0 body (pre @ w # rest) = (Some h1, ConnectionClosed)"
      by (simp add: post_unfold [OF p t])
    with h1(2-4) init [OF l]
    show "\<exists>h1. post fd lib sv info a0 body (pre @ w # rest) = (Some h1, ConnectionClosed)
              \<and> written h1 = receiver_entries sv a tofs mn mx fs pre
              \<and> flushed h1 = length (receiver_entries sv a tofs mn mx fs pre)
              \<and> finished h1"
      by (intro exI [of _ h1]) simp
  qed
  show ?thesis
    by (intro conjI c1 c2 c3 c4 c5 c6)
qed

text \<open>
  Claim C9, amended. When the database query fails for a receiver and the connection is
  still open at the check that follows the extraction, the loop raises the 400 error
  with the fixed message of lines 54 and 55; the receivers after it are not visited,
  nothing is written for it and the counter is unchanged.
\<close>

theorem extraction_failure_is_fatal:
  "(receiver_loop sv a tofs mn mx h pre = (hk, Continue)
      \<and> \<not> closed_before v
      \<and> get_phase_relative_times sv a (source hk) (visited v) mn mx = Some (st, et)
      \<and> get_seismograms_finite_source sv (source hk) (visited v) (components a) (units a)
           (dt a) (kernelwidth a) = None
      \<and> \<not> closed_after v \<longrightarrow>
      receiver_loop sv a tofs mn mx h (pre @ v # rest)
        = (hk\<lparr>dispatched := dispatched hk @ [visited v]\<rparr>, Raise (HTTPError 400 extract_msg)))
   \<and> (parse_and_resample_finite_source fd lib body info = Inr fs
        \<and> parse_time_settings fd info a0 fs = (a, Inr (tofs, mn, mx))
        \<and> receiver_loop sv a tofs mn mx (init_handler fs) pre = (hk, Continue)
        \<and> \<not> closed_before v
        \<and> get_phase_relative_times sv a (source hk) (visited v) mn mx = Some (st, et)
        \<and> get_seismograms_finite_source sv (source hk) (visited v) (components a) (units a)
             (dt a) (kernelwidth a) = None
        \<and> \<not> closed_after v \<longrightarrow>
        post fd lib sv info a0 body (pre @ v # rest)
          = (Some (hk\<lparr>dispatched := dispatched hk @ [visited v]\<rparr>),
             Raised (HTTPError 400 extract_msg)))"
proof -
  have loop: "receiver_loop sv a tofs mn mx h0 (pre @ v # rest)
        = (hk\<lparr>dispatched := dispatched hk @ [visited v]\<rparr>, Raise (HTTPError 400 extract_msg))"
    if "receiver_loop sv a tofs mn mx h0 pre = (hk, Continue)"
       "\<not> closed_before v"
       "get_phase_relative_times sv a (source hk) (visited v) mn mx = Some (st, et)"
       "get_seismograms_finite_source sv (source hk) (visited v) (components a) (units a)
           (dt a) (kernelwidth a) = None"
       "\<not> closed_after v" for h0
    using that(1) step_failure [OF that(2-5), of tofs]
    by (simp add: loop_append)
  have c1: "receiver_loop sv a tofs mn mx h pre = (hk, Continue)
      \<and> \<not> closed_before v
      \<and> get_phase_relative_times sv a (source hk) (visited v) mn mx = Some (st, et)
      \<and> get_seismograms_finite_source sv (source hk) (visited v) (components a) (units a)
           (dt a) (kernelwidth a) = None
      \<and> \<not> closed_after v \<longrightarrow>
      receiver_loop sv a tofs mn mx h (pre @ v # rest)
        = (hk\<lparr>dispatched := dispatched hk @ [visited v]\<rparr>, Raise (HTTPError 400 extract_msg))"
    using loop by blast
  have c2: "parse_and_resample_finite_source fd lib body info = Inr fs
        \<and> parse_time_settings fd info a0 fs = (a, Inr (tofs, mn, mx))
        \<and> receiver_loop sv a tofs mn mx (init_handler fs) pre = (hk, Continue)
        \<and> \<not> closed_before v
        \<and> get_phase_relative_times sv a (source hk) (visited v) mn mx = Some (st, et)
        \<and> get_seismograms_finite_source sv (source hk) (visited v) (components a) (units a)
             (dt a) (kernelwidth a) = None
        \<and> \<not> closed_after v \<longrightarrow>
        post fd lib sv info a0 body (pre @ v # rest)
          = (Some (hk\<lparr>dispatched := dispatched hk @ [visited v]\<rparr>),
             Raised (HTTPError 400 extract_msg))"
  proof (intro impI, elim conjE)
    assume p: "parse_and_resample_finite_source fd lib body info = Inr fs"
      and t: "parse_time_settings fd info a0 fs = (a, Inr (tofs, mn, mx))"
      and l: "receiver_loop sv a tofs mn mx (init_handler fs) pre = (hk, Continue)"
      and r: "\<not> closed_before v"
        "get_phase_relative_times sv a (source hk) (visited v) mn mx = Some (st, et)"
        "get_seismograms_finite_source sv (source hk) (visited v) (components a) (units a)
             (dt a) (kernelwidth a) = None"
        "\<not> closed_after v"
    show "post fd lib sv info a0 body (pre @ v # rest)
          = (Some (hk\<lparr>dispatched := dispatched hk @ [visited v]\<rparr>),
             Raised (HTTPError 400 extract_msg))"
      by (simp add: post_unfold [OF p t] loop [OF l r])
  qed
  show ?thesis
    by (intro conjI c1 c2)
qed

lemma loop_source:
  assumes "receiver_loop sv a tofs mn mx h vs = (h', x)"
  shows "additional_time_shift (source h') = additional_time_shift (source h)
     \<and> (origin_time (source h') = Some (tofs + additional_time_shift (source h))
          \<or> origin_time (source h') = origin_time (source h) \<and> count h' = count h)"
  using assms
proof (induction vs arbitrary: h)
  case Nil
  then show ?case by simp
next
  case (Cons v vs)
  obtain h1 y where s: "visit_step sv a tofs mn mx h v = (h1, y)"
    by (cases "visit_step sv a tofs mn mx h v")
  from step_source [OF s]
  have ats: "additional_time_shift (source h1) = additional_time_shift (source h)"
    and ot: "origin_time (source h1) = origin_time (source h)
           \<or> origin_time (source h1) = Some (tofs + additional_time_shift (source h))"
    by auto
  show ?case
  proof (cases "y = Continue")
    case True
    with s Cons.prems have l: "receiver_loop sv a tofs mn mx h1 vs = (h', x)" by simp
    note ih = Cons.IH [OF l]
    from step_continue(2,3,5) [of sv a tofs mn mx h v h1] s True
    have "h1 = h \<or> origin_time (source h1) = Some (tofs + additional_time_shift (source h))
             \<and> count h1 = count h + 1"
      by auto
    with ih ats loop_count_mono [OF l] show ?thesis by auto
  next
    case False
    from loop_Cons_exit [OF s False, of vs] Cons.prems have e: "h' = h1" by simp
    from step_exit(2) [OF s False] e ats ot show ?thesis by auto
  qed
qed

lemma parse_Inr_earliest:
  assumes "snd (parse_time_settings fd info a fs) = Inr (tofs, earliest, latest)"
  shows "earliest = tofs + additional_time_shift fs"
  using time_window_values(2) [OF parse_Inr_window [OF assms]] .

text \<open>
  Claim C10. The earliest start returned by \<^verbatim>\<open>parse_time_settings\<close> is the time of
  the first sample plus \<^verbatim>\<open>additional_time_shift\<close>. Every extraction whose database
  query succeeds assigns this value to the \<^verbatim>\<open>origin_time\<close> of the shared source,
  whatever the receiver. The loop never changes \<^verbatim>\<open>additional_time_shift\<close>; at any
  exit of the loop the \<^verbatim>\<open>origin_time\<close> is either this value or still the initial one
  with no receiver counted; and once it has this value it keeps it.
\<close>

theorem origin_time_invariant:
  assumes "snd (parse_time_settings fd info a0 fs) = Inr (tofs, earliest, latest)"
      and "additional_time_shift (source h) = additional_time_shift fs"
      and "receiver_loop sv a tofs earliest latest h vs = (h', x)"
  shows "earliest = tofs + additional_time_shift fs
     \<and> (get_seismograms_finite_source sv (source h) rc comps un d kw = Some stream \<longrightarrow>
          origin_time (fst (get_finite_source sv (source h) rc comps un d kw st et tofs fmt lbl))
            = Some earliest)
     \<and> additional_time_shift (source h') = additional_time_shift fs
     \<and> (origin_time (source h') = Some earliest
          \<or> origin_time (source h') = origin_time (source h) \<and> count h' = count h)
     \<and> (origin_time (source h) = Some earliest \<longrightarrow> origin_time (source h') = Some earliest)
     \<and> (count h < count h' \<longrightarrow> origin_time (source h') = Some earliest)"
proof -
  note e = parse_Inr_earliest [OF assms(1)]
  from loop_source [OF assms(3)] assms(2) e
  have l: "additional_time_shift (source h') = additional_time_shift fs"
    "origin_time (source h') = Some earliest
       \<or> origin_time (source h') = origin_time (source h) \<and> count h' = count h"
    by simp_all
  have g: "get_seismograms_finite_source sv (source h) rc comps un d kw = Some stream \<longrightarrow>
          origin_time (fst (get_finite_source sv (source h) rc comps un d kw st et tofs fmt lbl))
            = Some earliest"
    using assms(2) e by (simp add: get_finite_source_success)
  from l(2) have i: "origin_time (source h) = Some earliest \<longrightarrow> origin_time (source h') = Some earliest"
    by auto
  from l(2) have j: "count h < count h' \<longrightarrow> origin_time (source h') = Some earliest"
    by auto
  show ?thesis
    by (intro conjI e g l i j)
qed

section \<open>Concrete runs\<close>

lemma prepare_example:
  "parse_and_resample_finite_source exact_div example_lib ''x'' small_info = Inr prepared_source"
  by (simp add: parse_and_resample_finite_source_def pad_finite_source_def padding_samples_def
      pad_pointsource_def lp_sliprate_def resample_sliprate_def find_hypocenter_def Let_def
      exact_div_def example_lib_def small_info_def raw_source_def prepared_source_def
      numeral_eq_Suc)

lemma time_shift_examples:
  "time_shift raw_source = 3" "time_shift prepared_source = 8" "time_shift example_source = 0"
  by (simp_all add: time_shift_def raw_source_def prepared_source_def example_source_def)

lemma parse_example:
  "parse_time_settings exact_div small_info example_args prepared_source
     = (resolved_args, Inr (- 8, - 3, 1))"
  by (simp add: parse_time_settings_def resolve_float_settings_def time_window_def
      resampling_margin_applies_def check_starttime_def check_endtime_def Let_def
      utc_ge_def utc_lt_def utc_le_def microseconds_def time_shift_def
      example_args_def small_info_def resolved_args_def prepared_source_def)

lemma parse_example_archive:
  "parse_time_settings exact_div small_info archive_args prepared_source
     = (resolved_archive_args, Inr (- 8, - 3, 1))"
  by (simp add: parse_time_settings_def resolve_float_settings_def time_window_def
      resampling_margin_applies_def check_starttime_def check_endtime_def Let_def
      utc_ge_def utc_lt_def utc_le_def microseconds_def time_shift_def
      example_args_def small_info_def resolved_args_def archive_args_def
      resolved_archive_args_def prepared_source_def)

lemma step_example:
  "visit_step example_services resolved_args (- 8) (- 3) 1 (init_handler prepared_source)
     (open_visit example_receiver) = (after_one, Continue)"
  by (simp add: visit_step_def get_finite_source_def Let_def init_handler_def flush_def
      write_data_def example_services_def open_visit_def example_receiver_def after_one_def
      prepared_source_def resolved_args_def example_args_def)

lemma step_example_archive:
  "visit_step example_services resolved_archive_args (- 8) (- 3) 1
     (init_handler prepared_source) (open_visit example_receiver)
     = (archive_after_one, Continue)"
  by (simp add: visit_step_def get_finite_source_def Let_def init_handler_def flush_def
      drain_def writestr_all_def example_services_def open_visit_def example_receiver_def
      archive_after_one_def prepared_source_def resolved_archive_args_def resolved_args_def
      example_args_def)

text \<open>
  Three requests: float offsets for start and end with no origin time, the default
  request, and a start time relative to the phase P with a float end offset.
\<close>

theorem time_settings_resolution_witness:
  "origintime (fst (parse_time_settings exact_div example_info
      (example_args\<lparr>origintime := None, starttime := Some (Float 5), endtime := Some (Float 10)\<rparr>)
      example_source)) = Some (- 2208988800)
   \<and> starttime (fst (parse_time_settings exact_div example_info
      (example_args\<lparr>origintime := None, starttime := Some (Float 5), endtime := Some (Float 10)\<rparr>)
      example_source)) = Some (UTCDateTime (- 2208988795))
   \<and> endtime (fst (parse_time_settings exact_div example_info
      (example_args\<lparr>origintime := None, starttime := Some (Float 5), endtime := Some (Float 10)\<rparr>)
      example_source)) = Some (UTCDateTime (- 2208988785))
   \<and> starttime (fst (parse_time_settings exact_div example_info example_args example_source))
       = Some (UTCDateTime 0)
   \<and> endtime (fst (parse_time_settings exact_div example_info
      (example_args\<lparr>starttime := Some (AttribDict ''P'' (- 10)), endtime := Some (Float 10)\<rparr>)
      example_source)) = Some (Float 10)"
proof -
  let ?a = "example_args\<lparr>origintime := None, starttime := Some (Float 5),
              endtime := Some (Float 10)\<rparr>"
  let ?b = "example_args\<lparr>starttime := Some (AttribDict ''P'' (- 10)), endtime := Some (Float 10)\<rparr>"
  have o: "resolved_origin ?a = - 2208988800" "resolved_origin example_args = 0"
    by (simp_all add: resolved_origin_def utc_date_def days_from_civil_def example_args_def)
  have f: "starttime example_args = None" "origintime example_args = Some 0"
    by (simp_all add: example_args_def)
  from time_settings_resolution [where fd = exact_div and info = example_info and a = ?a
      and fs = example_source and ?T0.0 = 0 and off = 5 and eoff = 10
      and s = "- 2208988795" and ph = "''P''" and po = 0]
  have "origintime (fst (parse_time_settings exact_div example_info ?a example_source)) = Some (- 2208988800)
    \<and> starttime (fst (parse_time_settings exact_div example_info ?a example_source))
        = Some (UTCDateTime (- 2208988795))
    \<and> endtime (fst (parse_time_settings exact_div example_info ?a example_source))
        = Some (UTCDateTime (- 2208988785))"
    by (simp add: o)
  moreover
  from time_settings_resolution [where fd = exact_div and info = example_info
      and a = example_args and fs = example_source and ?T0.0 = 0 and off = 0 and eoff = 0
      and s = 0 and ph = "''P''" and po = 0]
  have "starttime (fst (parse_time_settings exact_div example_info example_args example_source))
       = Some (UTCDateTime 0)"
    by (simp add: o f)
  moreover
  from time_settings_resolution [where fd = exact_div and info = example_info and a = ?b
      and fs = example_source and ?T0.0 = 0 and off = 0 and eoff = 10
      and s = 0 and ph = "''P''" and po = "- 10"]
  have "endtime (fst (parse_time_settings exact_div example_info ?b example_source)) = Some (Float 10)"
    by simp
  ultimately show ?thesis by simp
qed

lemma example_window:
  "dt a = None \<Longrightarrow> origintime a = Some 0 \<Longrightarrow>
   time_window exact_div example_info a example_source (resolved_origin a)
     = Inr (0, 41 / 10, 3600)"
  by (simp add: time_window_def resampling_margin_applies_def resolved_origin_def
      time_shift_def example_info_def example_source_def)

text \<open>
  With the earliest start at 4.1 s and the latest end at 3600 s: a start exactly one hour
  before the earliest start is accepted, one a tenth of a second earlier and one at the
  latest end are rejected, and a start relative to a phase is not checked.
\<close>

theorem starttime_validation_witness:
  "snd (parse_time_settings exact_div example_info
      (example_args\<lparr>starttime := Some (Float (41 / 10 - 3600))\<rparr>) example_source)
     = Inr (0, 41 / 10, 3600)
   \<and> snd (parse_time_settings exact_div example_info
      (example_args\<lparr>starttime := Some (Float (- 3596))\<rparr>) example_source)
     = Inl (HTTPError 400 one_hour_msg)
   \<and> snd (parse_time_settings exact_div example_info
      (example_args\<lparr>starttime := Some (Float 3600)\<rparr>) example_source)
     = Inl (HTTPError 400 starttime_msg)
   \<and> snd (parse_time_settings exact_div example_info
      (example_args\<lparr>starttime := Some (AttribDict ''P'' 0)\<rparr>) example_source)
     = Inr (0, 41 / 10, 3600)"
proof -
  let ?p = "\<lambda>a. parse_time_settings exact_div example_info a example_source"
  let ?a = "example_args\<lparr>starttime := Some (Float (41 / 10 - 3600))\<rparr>"
  let ?b = "example_args\<lparr>starttime := Some (Float (- 3596))\<rparr>"
  let ?c = "example_args\<lparr>starttime := Some (Float 3600)\<rparr>"
  let ?d = "example_args\<lparr>starttime := Some (AttribDict ''P'' 0)\<rparr>"
  have w: "time_window exact_div example_info a example_source (resolved_origin a)
      = Inr (0, 41 / 10, 3600)"
    if "a \<in> {?a, ?b, ?c, ?d}" for a
    using that by (intro example_window) (auto simp: example_args_def)
  have st: "starttime (fst (?p ?a)) = Some (UTCDateTime (41 / 10 - 3600))"
    "starttime (fst (?p ?b)) = Some (UTCDateTime (- 3596))"
    "starttime (fst (?p ?c)) = Some (UTCDateTime 3600)"
    by (simp_all add: parse_starttime resolve_starttime resolved_origin_def example_args_def)
  have en: "check_endtime (endtime (fst (?p a))) (41 / 10) 3600 = None"
    if "a \<in> {?a, ?b, ?c, ?d}" for a
    using that
    by (auto simp: parse_fst_window [OF w] with_default_endtime_def resolve_endtime
        check_endtime_def utc_le_def microseconds_def Let_def example_args_def)
  from starttime_validation [OF w, where a = ?a and s = "41 / 10 - 3600" and ph = "''P''"
      and po = 0] st(1) en [of ?a]
  have "snd (?p ?a) = Inr (0, 41 / 10, 3600)" by (simp add: microseconds_def Let_def)
  moreover
  from starttime_validation [OF w, where a = ?b and s = "- 3596" and ph = "''P''" and po = 0]
    st(2)
  have "snd (?p ?b) = Inl (HTTPError 400 one_hour_msg)" by (simp add: microseconds_def Let_def)
  moreover
  from starttime_validation [OF w, where a = ?c and s = 3600 and ph = "''P''" and po = 0] st(3)
  have "snd (?p ?c) = Inl (HTTPError 400 starttime_msg)" by simp
  moreover
  from starttime_validation [OF w, where a = ?d and s = 0 and ph = "''P''" and po = 0]
    en [of ?d]
  have "snd (?p ?d) = Inr (0, 41 / 10, 3600)" by simp
  ultimately show ?thesis by simp
qed

text \<open>
  A start time 0.4 microseconds below \<open>earliest - 3600\<close> is strictly less than the
  bound and in the same microsecond: the call returns the window.
\<close>

theorem starttime_below_bound_counterexample:
  "starttime (fst (parse_time_settings exact_div example_info
      (example_args\<lparr>starttime := Some (UTCDateTime (41 / 10 - 3600 - 4 / 10000000))\<rparr>)
      example_source)) = Some (UTCDateTime (41 / 10 - 3600 - 4 / 10000000))
   \<and> (41 / 10 - 3600 - 4 / 10000000 :: real) < 41 / 10 - 3600
   \<and> snd (parse_time_settings exact_div example_info
      (example_args\<lparr>starttime := Some (UTCDateTime (41 / 10 - 3600 - 4 / 10000000))\<rparr>)
      example_source) = Inr (0, 41 / 10, 3600)"
proof -
  define t :: real where "t = 41 / 10 - 3600 - 4 / 10000000"
  let ?a = "example_args\<lparr>starttime := Some (UTCDateTime t)\<rparr>"
  have m: "microseconds t = - 3595900000" "microseconds (- (35959 / 10)) = - 3595900000"
    "microseconds 3600 = 3600000000" "microseconds (41 / 10) = 4100000"
    by (simp_all add: t_def microseconds_def Let_def)
  have w: "time_window exact_div example_info ?a example_source (resolved_origin ?a)
      = Inr (0, 41 / 10, 3600)"
    by (intro example_window) (auto simp: example_args_def)
  have st: "starttime (fst (parse_time_settings exact_div example_info ?a example_source))
      = Some (UTCDateTime t)"
    by (simp add: parse_starttime resolve_starttime)
  have "endtime (fst (resolve_float_settings ?a)) = None"
    by (simp add: resolve_endtime example_args_def)
  then have en: "endtime (fst (parse_time_settings exact_div example_info ?a example_source))
      = Some (UTCDateTime 3600)"
    by (simp add: parse_fst_window [OF w] with_default_endtime_def)
  have r: "snd (parse_time_settings exact_div example_info ?a example_source)
      = Inr (0, 41 / 10, 3600)"
    by (simp add: parse_snd_window [OF w] st en check_starttime_def check_endtime_def
        utc_ge_def utc_lt_def utc_le_def m)
  have "t < 41 / 10 - 3600" by (simp add: t_def)
  with st r have "starttime (fst (parse_time_settings exact_div example_info ?a example_source))
      = Some (UTCDateTime t)
    \<and> t < 41 / 10 - 3600
    \<and> snd (parse_time_settings exact_div example_info ?a example_source)
        = Inr (0, 41 / 10, 3600)"
    by simp
  then show ?thesis unfolding t_def .
qed

text \<open>
  The default request gets the latest end as its end time; an end time of 4000 s is
  rejected, one at the earliest start is accepted.
\<close>

theorem endtime_validation_witness:
  "endtime (fst (parse_time_settings exact_div example_info example_args example_source))
     = Some (UTCDateTime 3600)
   \<and> snd (parse_time_settings exact_div example_info example_args example_source)
       = Inr (0, 41 / 10, 3600)
   \<and> snd (parse_time_settings exact_div example_info
        (example_args\<lparr>endtime := Some (UTCDateTime 4000)\<rparr>) example_source)
       = Inl (HTTPError 400 endtime_msg)
   \<and> snd (parse_time_settings exact_div example_info
        (example_args\<lparr>endtime := Some (UTCDateTime (41 / 10))\<rparr>) example_source)
       = Inr (0, 41 / 10, 3600)"
proof -
  let ?p = "\<lambda>a. parse_time_settings exact_div example_info a example_source"
  let ?b = "example_args\<lparr>endtime := Some (UTCDateTime 4000)\<rparr>"
  let ?c = "example_args\<lparr>endtime := Some (UTCDateTime (41 / 10))\<rparr>"
  have w: "time_window exact_div example_info a example_source (resolved_origin a)
      = Inr (0, 41 / 10, 3600)"
    if "a \<in> {example_args, ?b, ?c}" for a
    using that by (intro example_window) (auto simp: example_args_def)
  have st: "check_starttime (starttime (fst (?p a))) (41 / 10) 3600 = None"
    if "a \<in> {example_args, ?b, ?c}" for a
    using that
    by (auto simp: parse_starttime resolve_starttime resolved_origin_def check_starttime_def
        utc_ge_def utc_lt_def microseconds_def Let_def example_args_def)
  have en: "endtime (fst (?p ?b)) = Some (UTCDateTime 4000)"
    "endtime (fst (?p ?c)) = Some (UTCDateTime (41 / 10))"
    by (simp_all add: parse_endtime_given resolve_endtime example_args_def)
  have n: "endtime example_args = None" by (simp add: example_args_def)
  from endtime_validation [OF w, where a = example_args and e = 3600] n st [of example_args]
  have "endtime (fst (?p example_args)) = Some (UTCDateTime 3600)
        \<and> snd (?p example_args) = Inr (0, 41 / 10, 3600)"
    by simp
  moreover
  from endtime_validation [OF w, where a = ?b and e = 4000] en(1) st [of ?b]
  have "snd (?p ?b) = Inl (HTTPError 400 endtime_msg)" by simp
  moreover
  from endtime_validation [OF w, where a = ?c and e = "41 / 10"] en(2) st [of ?c]
  have "snd (?p ?c) = Inr (0, 41 / 10, 3600)" by simp
  ultimately show ?thesis by simp
qed

text \<open>
  An end time 0.4 microseconds after the latest end lies outside the interval and in
  the microsecond of its bound: the call returns the window.
\<close>

theorem endtime_past_bound_counterexample:
  "endtime (fst (parse_time_settings exact_div example_info
      (example_args\<lparr>endtime := Some (UTCDateTime (3600 + 4 / 10000000))\<rparr>) example_source))
     = Some (UTCDateTime (3600 + 4 / 10000000))
   \<and> (3600 :: real) < 3600 + 4 / 10000000
   \<and> snd (parse_time_settings exact_div example_info
      (example_args\<lparr>endtime := Some (UTCDateTime (3600 + 4 / 10000000))\<rparr>) example_source)
     = Inr (0, 41 / 10, 3600)"
proof -
  define t :: real where "t = 3600 + 4 / 10000000"
  let ?a = "example_args\<lparr>endtime := Some (UTCDateTime t)\<rparr>"
  have m: "microseconds t = 3600000000" "microseconds (- (35959 / 10)) = - 3595900000"
    "microseconds 3600 = 3600000000" "microseconds (41 / 10) = 4100000"
    "microseconds 0 = 0"
    by (simp_all add: t_def microseconds_def Let_def)
  have w: "time_window exact_div example_info ?a example_source (resolved_origin ?a)
      = Inr (0, 41 / 10, 3600)"
    by (intro example_window) (auto simp: example_args_def)
  have st: "starttime (fst (parse_time_settings exact_div example_info ?a example_source))
      = Some (UTCDateTime 0)"
    by (simp add: parse_starttime resolve_starttime resolved_origin_def example_args_def)
  have en: "endtime (fst (parse_time_settings exact_div example_info ?a example_source))
      = Some (UTCDateTime t)"
    by (simp add: parse_endtime_given resolve_endtime)
  have r: "snd (parse_time_settings exact_div example_info ?a example_source)
      = Inr (0, 41 / 10, 3600)"
    by (simp add: parse_snd_window [OF w] st en check_starttime_def check_endtime_def
        utc_ge_def utc_lt_def utc_le_def m)
  have "3600 < t" by (simp add: t_def)
  with en r have "endtime (fst (parse_time_settings exact_div example_info ?a example_source))
      = Some (UTCDateTime t)
    \<and> 3600 < t
    \<and> snd (parse_time_settings exact_div example_info ?a example_source)
        = Inr (0, 41 / 10, 3600)"
    by simp
  then show ?thesis unfolding t_def .
qed

lemma parser_example: "from_usgs_param_file example_lib ''x'' 10000 (1 / 10) 1 = Some raw_source"
  by (simp add: example_lib_def)

text \<open>
  The small database: five padding samples, a shift of 5 s. The point source has a time
  shift of 3 s before the padding and of 8 s after it, and the window is
  \<open>(- 8, - 3, 1)\<close>.
\<close>

theorem window_round_trip_witness:
  "parse_and_resample_finite_source exact_div example_lib ''x'' small_info = Inr prepared_source
   \<and> snd (parse_time_settings exact_div small_info example_args prepared_source)
       = Inr (- 8, - 3, 1)
   \<and> time_shift prepared_source = time_shift raw_source + additional_time_shift prepared_source
   \<and> (- 8 :: real)
       = resolved_origin example_args
           - (time_shift raw_source + additional_time_shift prepared_source)
   \<and> (- 3 :: real) = resolved_origin example_args - time_shift raw_source
   \<and> padding_samples exact_div small_info = Inr 5
   \<and> additional_time_shift prepared_source = 5 * info_dt small_info"
proof -
  have p: "snd (parse_time_settings exact_div small_info example_args prepared_source)
      = Inr (- 8, - 3, 1)"
    by (simp add: parse_example)
  have f: "\<forall>s. read_time_shift raw_source
                 (map (\<lambda>t. t + s) (map ps_time_shift (pointsources raw_source)))
               = read_time_shift raw_source (map ps_time_shift (pointsources raw_source)) + s"
    by (simp add: raw_source_def)
  have q: "exact_div (2 * info_period small_info) (info_dt small_info) = Finite 4"
    by (simp add: exact_div_def small_info_def)
  from window_round_trip [OF parser_example prepare_example p] p prepare_example f q
  show ?thesis by auto
qed

text \<open>
  The same run against the claim as it was stated: the time of the first sample is
  - 8 s, not the origin time minus the time shift of 3 s that the model had before the
  padding.
\<close>

theorem window_round_trip_counterexample:
  "from_usgs_param_file example_lib ''x'' 10000 (1 / 10) 1 = Some raw_source
   \<and> parse_and_resample_finite_source exact_div example_lib ''x'' small_info
       = Inr prepared_source
   \<and> snd (parse_time_settings exact_div small_info example_args prepared_source)
       = Inr (- 8, - 3, 1)
   \<and> resolved_origin example_args - time_shift raw_source = - 3
   \<and> (- 8 :: real) \<noteq> resolved_origin example_args - time_shift raw_source"
proof -
  have o: "resolved_origin example_args = 0"
    by (simp add: resolved_origin_def example_args_def)
  show ?thesis
    by (simp add: parser_example prepare_example parse_example time_shift_examples o)
qed

text \<open>
  The small database: five zeros on each side of the series \<open>[1, 2]\<close>, the time shift
  3 becomes 8, and the prepared series has 10 + 2 * 5 samples.
\<close>

theorem preparation_padding_witness:
  "parse_and_resample_finite_source exact_div example_lib ''x'' small_info = Inr prepared_source
   \<and> (\<exists>fs2. pad_finite_source exact_div small_info raw_source = Inr (5, fs2)
         \<and> map sliprate (pointsources fs2) = [[0, 0, 0, 0, 0, 1, 2, 0, 0, 0, 0, 0]]
         \<and> additional_time_shift fs2 = 5)
   \<and> additional_time_shift prepared_source = 5
   \<and> map ps_time_shift (pointsources prepared_source) = [8]
   \<and> map (\<lambda>ps. length (sliprate ps)) (pointsources prepared_source) = [20]"
proof -
  have r: "\<forall>d n xs. length (resample_series example_lib d n xs) = nat n"
    by (auto simp add: example_lib_def)
  have s: "info_period small_info = 2" "info_dt small_info = 1" "info_npts small_info = 10"
    by (simp_all add: small_info_def)
  have raw: "pointsources raw_source
      = [\<lparr>sliprate = [1, 2], ps_time_shift = 3, ps_position = (0, 0, 0)\<rparr>]"
    by (simp add: raw_source_def)
  have q: "exact_div x y = Finite z \<longleftrightarrow> z = x / y" for x y z
    by (auto simp: exact_div_def)
  from preparation_padding [OF parser_example prepare_example r] prepare_example
  show ?thesis
    by (auto simp add: s raw q numeral_eq_Suc)
qed

lemma far_has_no_window:
  "get_phase_relative_times example_services a fs (visited (open_visit far_receiver)) mn mx = None"
  "\<not> closed_before (open_visit rc)" "\<not> closed_after (open_visit rc)"
  by (simp_all add: example_services_def open_visit_def far_receiver_def)

text \<open>Two receivers without a window: the request fails and nothing is written.\<close>

theorem no_window_no_results_witness:
  "receiver_loop example_services resolved_args (- 8) (- 3) 1 (init_handler prepared_source)
      [open_visit far_receiver, open_visit far_receiver]
     = receiver_loop example_services resolved_args (- 8) (- 3) 1 (init_handler prepared_source)
         [open_visit far_receiver]
   \<and> post exact_div example_lib example_services small_info example_args ''x''
        [open_visit far_receiver, open_visit far_receiver]
       = (Some (init_handler prepared_source), Raised (HTTPError 400 no_seismograms_msg))
   \<and> written (init_handler prepared_source) = []"
proof -
  from no_window_no_results [where v = "open_visit far_receiver" and sv = example_services
      and a = resolved_args and h = "init_handler prepared_source" and mn = "- 3" and mx = 1
      and tofs = "- 8" and vs = "[open_visit far_receiver]" and fs = prepared_source
      and fd = exact_div and lib = example_lib and body = "''x''" and info = small_info
      and ?a0.0 = example_args]
  have a: "receiver_loop example_services resolved_args (- 8) (- 3) 1
      (init_handler prepared_source) [open_visit far_receiver, open_visit far_receiver]
     = receiver_loop example_services resolved_args (- 8) (- 3) 1
         (init_handler prepared_source) [open_visit far_receiver]"
    by (simp add: far_has_no_window del: receiver_loop.simps)
  from no_window_no_results [where sv = example_services
      and a = resolved_args and mn = "- 3" and mx = 1
      and tofs = "- 8" and vs = "[open_visit far_receiver, open_visit far_receiver]"
      and fs = prepared_source
      and fd = exact_div and lib = example_lib and body = "''x''" and info = small_info
      and ?a0.0 = example_args]
  have b: "post exact_div example_lib example_services small_info example_args ''x''
        [open_visit far_receiver, open_visit far_receiver]
       = (Some (init_handler prepared_source), Raised (HTTPError 400 no_seismograms_msg))
      \<and> written (init_handler prepared_source) = []"
    by (simp add: far_has_no_window prepare_example parse_example del: receiver_loop.simps)
  from a b show ?thesis by simp
qed

lemma loop_example:
  "receiver_loop example_services resolved_args (- 8) (- 3) 1 (init_handler prepared_source)
     [open_visit example_receiver] = (after_one, Continue)"
  by (simp add: step_example)

lemma loop_example_archive:
  "receiver_loop example_services resolved_archive_args (- 8) (- 3) 1
     (init_handler prepared_source) [open_visit example_receiver]
     = (archive_after_one, Continue)"
  by (simp add: step_example_archive)

text \<open>
  Three receivers, the connection closed when the second is reached, in stream mode and
  in archive mode: the response holds the payload, or the two archive entries, of the
  first receiver, and the request ends without an error.
\<close>

theorem cancellation_is_graceful_witness:
  "post exact_div example_lib example_services small_info example_args ''x''
      [open_visit example_receiver, closed_visit example_receiver, open_visit example_receiver]
     = (Some (finish (flush after_one)), ConnectionClosed)
   \<and> written (finish (flush after_one)) = [Payload ''SYN'']
   \<and> receiver_entries example_services resolved_args (- 8) (- 3) 1 prepared_source
        [open_visit example_receiver] = [Payload ''SYN'']
   \<and> post exact_div example_lib example_services small_info archive_args ''x''
      [open_visit example_receiver, closed_visit example_receiver, open_visit example_receiver]
     = (Some (finish (flush archive_after_one)), ConnectionClosed)
   \<and> written (finish (flush archive_after_one))
       = [ZipEntry ''SYN.Z'' ''SYN'', ZipEntry ''SYN.N'' ''SYN'']
   \<and> receiver_entries example_services resolved_archive_args (- 8) (- 3) 1 prepared_source
        [open_visit example_receiver] = [ZipEntry ''SYN.Z'' ''SYN'', ZipEntry ''SYN.N'' ''SYN'']"
proof -
  let ?vs = "[open_visit example_receiver, closed_visit example_receiver,
              open_visit example_receiver]"
  have c: "closed_before (closed_visit example_receiver)"
    by (simp add: closed_visit_def)
  have l: "[open_visit example_receiver] @ closed_visit example_receiver
             # [open_visit example_receiver] = ?vs"
    by simp
  note stream = cancellation_is_graceful [where sv = example_services and a = resolved_args
      and tofs = "- 8" and mn = "- 3" and mx = 1 and h = "init_handler prepared_source"
      and v = "open_visit example_receiver" and vs = "[]" and st = "- 3" and et = 1
      and pre = "[open_visit example_receiver]" and hk = after_one and hk' = after_one
      and w = "closed_visit example_receiver" and rest = "[open_visit example_receiver]"
      and fd = exact_div and lib = example_lib and body = "''x''" and info = small_info
      and fs = prepared_source and ?a0.0 = example_args,
      THEN conjunct2, THEN conjunct2, THEN conjunct2, THEN conjunct2, THEN conjunct1,
      unfolded l]
  note archive = cancellation_is_graceful [where sv = example_services
      and a = resolved_archive_args
      and tofs = "- 8" and mn = "- 3" and mx = 1 and h = "init_handler prepared_source"
      and v = "open_visit example_receiver" and vs = "[]" and st = "- 3" and et = 1
      and pre = "[open_visit example_receiver]" and hk = archive_after_one
      and hk' = archive_after_one
      and w = "closed_visit example_receiver" and rest = "[open_visit example_receiver]"
      and fd = exact_div and lib = example_lib and body = "''x''" and info = small_info
      and fs = prepared_source and ?a0.0 = archive_args,
      THEN conjunct2, THEN conjunct2, THEN conjunct2, THEN conjunct2, THEN conjunct1,
      unfolded l]
  have s: "post exact_div example_lib example_services small_info example_args ''x'' ?vs
             = (Some (finish (flush after_one)), ConnectionClosed)
           \<and> written (finish (flush after_one))
               = receiver_entries example_services resolved_args (- 8) (- 3) 1 prepared_source
                   [open_visit example_receiver]"
    using stream c loop_example prepare_example parse_example by blast
  have z: "post exact_div example_lib example_services small_info archive_args ''x'' ?vs
             = (Some (finish (flush archive_after_one)), ConnectionClosed)
           \<and> written (finish (flush archive_after_one))
               = receiver_entries example_services resolved_archive_args (- 8) (- 3) 1
                   prepared_source [open_visit example_receiver]"
    using archive c loop_example_archive prepare_example parse_example_archive by blast
  have w: "written (finish (flush after_one)) = [Payload ''SYN'']"
    "written (finish (flush archive_after_one))
       = [ZipEntry ''SYN.Z'' ''SYN'', ZipEntry ''SYN.N'' ''SYN'']"
    by (simp_all add: finish_flush_fields after_one_def archive_after_one_def)
  from s w(1) have e1: "receiver_entries example_services resolved_args (- 8) (- 3) 1
      prepared_source [open_visit example_receiver] = [Payload ''SYN'']"
    by (simp del: receiver_entries.simps)
  from z w(2) have e2: "receiver_entries example_services resolved_archive_args (- 8) (- 3) 1
      prepared_source [open_visit example_receiver]
        = [ZipEntry ''SYN.Z'' ''SYN'', ZipEntry ''SYN.N'' ''SYN'']"
    by (simp del: receiver_entries.simps)
  from s z w e1 e2 show ?thesis
    by (intro conjI) (simp_all del: receiver_entries.simps)
qed

lemma bad_fails:
  "get_seismograms_finite_source example_services fs bad_receiver comps un d kw = None"
  "get_phase_relative_times example_services a fs bad_receiver mn mx = Some (mn, mx)"
  by (simp_all add: example_services_def bad_receiver_def)

text \<open>
  The database query fails for the only receiver and the connection is closed when the
  extraction returns: the handler returns through line 315 and no error is raised.
\<close>

theorem extraction_failure_counterexample:
  "get_seismograms_finite_source example_services prepared_source bad_receiver
      (components resolved_args) (units resolved_args) (dt resolved_args)
      (kernelwidth resolved_args) = None
   \<and> snd (post exact_div example_lib example_services small_info example_args ''x''
            [closing_visit bad_receiver]) = ConnectionClosed
   \<and> snd (post exact_div example_lib example_services small_info example_args ''x''
            [closing_visit bad_receiver]) \<noteq> Raised (HTTPError 400 extract_msg)"
  by (simp add: post_unfold [OF prepare_example parse_example] visit_step_def bad_fails
      get_finite_source_def closing_visit_def init_handler_def)

text \<open>
  Three receivers, the query failing for the second with the connection open: the error
  is raised, the third receiver is not dispatched.
\<close>

theorem extraction_failure_is_fatal_witness:
  "post exact_div example_lib example_services small_info example_args ''x''
      [open_visit example_receiver, open_visit bad_receiver, open_visit example_receiver]
     = (Some (after_one\<lparr>dispatched := [example_receiver, bad_receiver]\<rparr>),
        Raised (HTTPError 400 extract_msg))
   \<and> written after_one = [Payload ''SYN''] \<and> count after_one = 1"
proof -
  have v: "visited (open_visit bad_receiver) = bad_receiver"
    "\<not> closed_before (open_visit bad_receiver)" "\<not> closed_after (open_visit bad_receiver)"
    by (simp_all add: open_visit_def)
  have d: "dispatched after_one = [example_receiver]" "written after_one = [Payload ''SYN'']"
    "count after_one = 1"
    by (simp_all add: after_one_def)
  from extraction_failure_is_fatal [where sv = example_services and a = resolved_args
      and tofs = "- 8" and mn = "- 3" and mx = 1 and h = "init_handler prepared_source"
      and pre = "[open_visit example_receiver]" and hk = after_one
      and v = "open_visit bad_receiver" and rest = "[open_visit example_receiver]"
      and st = "- 3" and et = 1
      and fd = exact_div and lib = example_lib and body = "''x''" and info = small_info
      and fs = prepared_source and ?a0.0 = example_args]
  have "post exact_div example_lib example_services small_info example_args ''x''
      ([open_visit example_receiver] @ open_visit bad_receiver # [open_visit example_receiver])
     = (Some (after_one\<lparr>dispatched := dispatched after_one @ [bad_receiver]\<rparr>),
        Raised (HTTPError 400 extract_msg))"
    by (simp add: v bad_fails loop_example prepare_example parse_example
        del: receiver_loop.simps)
  then show ?thesis by (simp add: d)
qed

lemma step_example_two:
  "visit_step example_services resolved_args (- 8) (- 3) 1 after_one
     (open_visit example_receiver) = (after_two, Continue)"
  by (simp add: visit_step_def get_finite_source_def Let_def flush_def
      write_data_def example_services_def open_visit_def example_receiver_def after_one_def
      after_two_def prepared_source_def resolved_args_def example_args_def)

lemma loop_example_three:
  "receiver_loop example_services resolved_args (- 8) (- 3) 1 (init_handler prepared_source)
     [open_visit example_receiver, open_visit far_receiver, open_visit example_receiver]
     = (after_two, Continue)"
proof -
  have "visit_step example_services resolved_args (- 8) (- 3) 1 after_one
      (open_visit far_receiver) = (after_one, Continue)"
    by (simp add: step_no_window far_has_no_window)
  then show ?thesis
    by (simp add: step_example step_example_two)
qed

text \<open>
  Three receivers, the second without a window: after the loop the origin time of the
  source is the earliest start, - 3 s.
\<close>

theorem origin_time_invariant_witness:
  "snd (parse_time_settings exact_div small_info example_args prepared_source)
     = Inr (- 8, - 3, 1)
   \<and> receiver_loop example_services resolved_args (- 8) (- 3) 1 (init_handler prepared_source)
        [open_visit example_receiver, open_visit far_receiver, open_visit example_receiver]
       = (after_two, Continue)
   \<and> (- 3 :: real) = - 8 + additional_time_shift prepared_source
   \<and> additional_time_shift (source after_two) = additional_time_shift prepared_source
   \<and> origin_time (source after_two) = Some (- 3)"
proof -
  have p: "snd (parse_time_settings exact_div small_info example_args prepared_source)
      = Inr (- 8, - 3, 1)"
    by (simp add: parse_example)
  have s: "additional_time_shift (source (init_handler prepared_source))
      = additional_time_shift prepared_source"
    by (simp add: init_handler_def)
  have c: "count (init_handler prepared_source) < count after_two"
    by (simp add: init_handler_def after_two_def)
  from origin_time_invariant [OF p s loop_example_three] c p loop_example_three
  show ?thesis by simp
qed

end
